theory Spec2Isabelle
  imports Main "HOL-Library.Char_ord" "HOL-Library.List_Lexorder"
begin

section \<open>Python values, errors and the object store\<close>

text \<open>
  The module \<^verbatim>\<open>python/lsst/ip/isr/calibType.py\<close> defines the calibration base class
  \<^verbatim>\<open>IsrCalib\<close> and its subclass \<^verbatim>\<open>IsrProvenance\<close>.  Python values that reach the
  code are \<^verbatim>\<open>None\<close>, integers, strings, a camera descriptor (it answers \<^verbatim>\<open>getName()\<close>)
  and a detector descriptor (it answers \<^verbatim>\<open>getName()\<close>, \<^verbatim>\<open>getSerial()\<close>, \<^verbatim>\<open>getId()\<close>).
  Python's \<^verbatim>\<open>bool\<close> is a subclass of \<^verbatim>\<open>int\<close>: \<^verbatim>\<open>True\<close> is \<open>PInt 1\<close>, \<^verbatim>\<open>False\<close> is \<open>PInt 0\<close>.
  The descriptors are objects of other packages: they are taken to be true values, and
  two of them are equal when their fields are.
\<close>

datatype pyval =
    PNone
  | PInt int
  | PStr string
  | PCamera string
  | PDetector string string int

text \<open>Truth value testing, as in \<^verbatim>\<open>if x:\<close> and \<^verbatim>\<open>x if x else None\<close>.\<close>

fun truthy :: "pyval \<Rightarrow> bool" where
  "truthy PNone = False"
| "truthy (PInt i) = (i \<noteq> 0)"
| "truthy (PStr s) = (s \<noteq> [])"
| "truthy (PCamera n) = True"
| "truthy (PDetector n ser i) = True"

definition or_None :: "pyval \<Rightarrow> pyval" where
  "or_None v = (if truthy v then v else PNone)"

datatype error =
    AttributeError string
  | NameError string
  | TypeError string
  | ValueError string
  | KeyError string
  | IndexError string
  | RuntimeError string
  | NotImplementedError string
  | OSError string

fun getName :: "pyval \<Rightarrow> error + string" where
  "getName (PCamera n) = Inr n"
| "getName (PDetector n ser i) = Inr n"
| "getName v = Inl (AttributeError ''getName'')"

fun getSerial :: "pyval \<Rightarrow> error + string" where
  "getSerial (PDetector n ser i) = Inr ser"
| "getSerial v = Inl (AttributeError ''getSerial'')"

fun getId :: "pyval \<Rightarrow> error + int" where
  "getId (PDetector n ser i) = Inr i"
| "getId v = Inl (AttributeError ''getId'')"

text \<open>\<^verbatim>\<open>str.split(sep)\<close> for a one-character separator.\<close>

fun str_split :: "char \<Rightarrow> string \<Rightarrow> string list" where
  "str_split sep [] = [[]]"
| "str_split sep (x # xs) =
     (if x = sep then [] # str_split sep xs
      else (case str_split sep xs of [] \<Rightarrow> [[x]] | p # ps \<Rightarrow> (x # p) # ps))"

text \<open>
  A \<^verbatim>\<open>PropertyList\<close> (and a keyword-argument dictionary) is a mapping from string keys
  to values.  \<^verbatim>\<open>PropertyList\<close> objects are mutable and shared by reference, so they
  live in a store: \<open>objs\<close> maps a reference to the object's current content and \<open>nxt\<close>
  is the next unused reference.  The store also carries the reading of the clock that
  \<^verbatim>\<open>datetime.datetime.now()\<close> returns.
\<close>

type_synonym metadata = "string \<rightharpoonup> pyval"

record datetime =
  isoformat :: string
  date_isoformat :: string
  time_isoformat :: string

record store =
  objs :: "nat \<Rightarrow> metadata"
  nxt :: nat
  now :: datetime

text \<open>\<^verbatim>\<open>PropertyList()\<close>: a new, empty object.\<close>

definition PropertyList :: "store \<Rightarrow> nat \<times> store" where
  "PropertyList s = (nxt s, s\<lparr>objs := (objs s)(nxt s := Map.empty), nxt := Suc (nxt s)\<rparr>)"

text \<open>\<^verbatim>\<open>copy.copy(metadata)\<close>: a new object with the same content.\<close>

definition copy_copy :: "nat \<Rightarrow> store \<Rightarrow> nat \<times> store" where
  "copy_copy r s = (nxt s, s\<lparr>objs := (objs s)(nxt s := objs s r), nxt := Suc (nxt s)\<rparr>)"

text \<open>\<^verbatim>\<open>md[k] = v\<close> and \<^verbatim>\<open>md.update(d)\<close> on the object behind reference \<open>r\<close>.\<close>

definition setitem :: "nat \<Rightarrow> string \<Rightarrow> pyval \<Rightarrow> store \<Rightarrow> store" where
  "setitem r k v s = s\<lparr>objs := (objs s)(r := (objs s r)(k \<mapsto> v))\<rparr>"

definition update :: "nat \<Rightarrow> metadata \<Rightarrow> store \<Rightarrow> store" where
  "update r d s = s\<lparr>objs := (objs s)(r := objs s r ++ d)\<rparr>"


section \<open>The calibration object\<close>

datatype calib_class = IsrCalib | IsrProvenance

fun OBSTYPE :: "calib_class \<Rightarrow> string" where
  "OBSTYPE IsrCalib = ''generic''"
| "OBSTYPE IsrProvenance = ''IsrProvenance''"

definition SCHEMA :: "calib_class \<Rightarrow> string" where
  "SCHEMA k = ''NO SCHEMA''"

definition VERSION :: "calib_class \<Rightarrow> int" where
  "VERSION k = 0"

text \<open>
  An identifier (a \<^verbatim>\<open>dataId\<close>) is a Python dictionary: its items in insertion order,
  each key once.
\<close>

type_synonym dataId = "(string \<times> pyval) list"

text \<open>
  The instance attributes.  An attribute \<^verbatim>\<open>_x\<close> of the source is the field \<open>u_x\<close>;
  \<open>u_metadata\<close> is the reference to the instance's \<^verbatim>\<open>PropertyList\<close>.  The last three
  fields are attributes of \<^verbatim>\<open>IsrProvenance\<close> instances only; \<open>dimensions\<close> is a Python set.
\<close>

record calib =
  cls :: calib_class
  u_instrument :: pyval
  u_raftName :: pyval
  u_slotName :: pyval
  u_detectorName :: pyval
  u_detectorSerial :: pyval
  u_detectorId :: pyval
  u_filter :: pyval
  u_calibId :: pyval
  u_metadata :: nat
  calibType :: pyval
  dimensions :: "string set"
  dataIdList :: "dataId list"

text \<open>
  A method runs on the store and the instance.  It returns them updated, or raises:
  \<open>Inl (e, st)\<close> is the exception \<open>e\<close> with the store and the instance as the method
  left them.
\<close>

type_synonym state = "store \<times> calib"

type_synonym upd = "(error \<times> state) + state"

subsection \<open>\<^verbatim>\<open>IsrCalib.getMetadata\<close>, \<^verbatim>\<open>IsrCalib.setMetadata\<close>\<close>

definition getMetadata :: "calib \<Rightarrow> nat" where
  "getMetadata c = u_metadata c"

text \<open>The argument is a reference, or \<open>None\<close> for Python's \<^verbatim>\<open>None\<close>.\<close>

definition setMetadata :: "nat option \<Rightarrow> state \<Rightarrow> state" where
  "setMetadata metadata st =
    (case st of (s, c) \<Rightarrow>
      let (s1, c1) =
            (case metadata of
               None \<Rightarrow> (s, c)
             | Some r \<Rightarrow> (case copy_copy r s of (r', s') \<Rightarrow> (s', c\<lparr>u_metadata := r'\<rparr>)));
          s2 = setitem (u_metadata c1) ''OBSTYPE'' (PStr (OBSTYPE (cls c1))) s1;
          s3 = setitem (u_metadata c1) (OBSTYPE (cls c1) @ ''_SCHEMA'') (PStr (SCHEMA (cls c1))) s2;
          s4 = setitem (u_metadata c1) (OBSTYPE (cls c1) @ ''_VERSION'') (PInt (VERSION (cls c1))) s3
      in (s4, c1))"

subsection \<open>\<^verbatim>\<open>IsrCalib.updateMetadata\<close>\<close>

text \<open>
  The parameters \<open>camera\<close>, \<open>detector\<close> and \<open>filterName\<close> are any Python value (default
  \<^verbatim>\<open>None\<close>), \<open>setCalibId\<close> and \<open>setDate\<close> are the truth values of the arguments and
  \<open>kwargs\<close> holds the remaining keyword arguments.

  With \<open>setCalibId\<close> the source appends the entries for \<^verbatim>\<open>_instrument\<close>, \<^verbatim>\<open>_raftName\<close>
  and \<^verbatim>\<open>_detectorName\<close> to the local list \<^verbatim>\<open>values\<close> and then evaluates the condition
  \<^verbatim>\<open>self._detector\<close> of the fourth entry.  No class of the module defines an attribute
  \<^verbatim>\<open>_detector\<close> (nor \<^verbatim>\<open>detector\<close>), so the lookup raises \<^verbatim>\<open>AttributeError\<close>; the local
  list is lost and \<^verbatim>\<open>_calibId\<close> is not assigned.
\<close>

text \<open>The block \<^verbatim>\<open>if camera:\<close>.\<close>

definition updateMetadata_camera :: "pyval \<Rightarrow> calib \<Rightarrow> error + calib" where
  "updateMetadata_camera camera c =
    (if truthy camera then
       (case getName camera of
          Inl e \<Rightarrow> Inl e
        | Inr n \<Rightarrow> Inr (c\<lparr>u_instrument := PStr n\<rparr>))
     else Inr c)"

text \<open>
  The two-element destructuring
  \<^verbatim>\<open>(self._raftName, self._slotName) = self._detectorName.split("_")\<close>:
  it raises \<^verbatim>\<open>ValueError\<close> unless the split has exactly two parts.
\<close>

definition unpack_raft_slot :: "string \<Rightarrow> calib \<Rightarrow> (error \<times> calib) + calib" where
  "unpack_raft_slot n c =
    (case str_split (CHR ''_'') n of
       [a, b] \<Rightarrow> Inr (c\<lparr>u_raftName := PStr a, u_slotName := PStr b\<rparr>)
     | _ \<Rightarrow> Inl (ValueError ''too many values to unpack (expected 2)'', c))"

text \<open>
  The block \<^verbatim>\<open>if detector:\<close>.  Each assignment takes effect before the next call is
  made, so an exception leaves the earlier assignments in place.
\<close>

definition updateMetadata_detector :: "pyval \<Rightarrow> calib \<Rightarrow> (error \<times> calib) + calib" where
  "updateMetadata_detector detector c =
    (if truthy detector then
       (case getName detector of
          Inl e \<Rightarrow> Inl (e, c)
        | Inr n \<Rightarrow>
            (case getSerial detector of
               Inl e \<Rightarrow> Inl (e, c\<lparr>u_detectorName := PStr n\<rparr>)
             | Inr ser \<Rightarrow>
                 (case getId detector of
                    Inl e \<Rightarrow> Inl (e, c\<lparr>u_detectorName := PStr n, u_detectorSerial := PStr ser\<rparr>)
                  | Inr i \<Rightarrow>
                      (if CHR ''_'' \<in> set n then
                         unpack_raft_slot n
                           (c\<lparr>u_detectorName := PStr n, u_detectorSerial := PStr ser,
                              u_detectorId := PInt i\<rparr>)
                       else
                         Inr (c\<lparr>u_detectorName := PStr n, u_detectorSerial := PStr ser,
                                u_detectorId := PInt i\<rparr>)))))
     else Inr c)"

text \<open>The creation-time entries of \<^verbatim>\<open>mdSupplemental\<close> (the block \<^verbatim>\<open>if setDate:\<close>).\<close>

definition date_entries :: "bool \<Rightarrow> datetime \<Rightarrow> metadata" where
  "date_entries setDate date =
    (if setDate then
       [''CALIBDATE'' \<mapsto> PStr (isoformat date),
        ''CALIB_CREATION_DATE'' \<mapsto> PStr (date_isoformat date),
        ''CALIB_CREATION_TIME'' \<mapsto> PStr (time_isoformat date)]
     else Map.empty)"

text \<open>The eight assignments \<^verbatim>\<open>self._metadata[KEY] = self._x if self._x else None\<close>.\<close>

definition write_identity :: "calib \<Rightarrow> store \<Rightarrow> store" where
  "write_identity c s =
    setitem (u_metadata c) ''CALIB_ID'' (or_None (u_calibId c))
     (setitem (u_metadata c) ''FILTER'' (or_None (u_filter c))
       (setitem (u_metadata c) ''DET_SER'' (or_None (u_detectorSerial c))
         (setitem (u_metadata c) ''DET_NAME'' (or_None (u_detectorName c))
           (setitem (u_metadata c) ''DETECTOR'' (or_None (u_detectorId c))
             (setitem (u_metadata c) ''SLOTNAME'' (or_None (u_slotName c))
               (setitem (u_metadata c) ''RAFTNAME'' (or_None (u_raftName c))
                 (setitem (u_metadata c) ''INSTRUME'' (or_None (u_instrument c)) s)))))))"

text \<open>The same eight entries as one dictionary (used to state what the method wrote).\<close>

definition identity_entries :: "calib \<Rightarrow> metadata" where
  "identity_entries c =
    [''INSTRUME'' \<mapsto> or_None (u_instrument c),
     ''RAFTNAME'' \<mapsto> or_None (u_raftName c),
     ''SLOTNAME'' \<mapsto> or_None (u_slotName c),
     ''DETECTOR'' \<mapsto> or_None (u_detectorId c),
     ''DET_NAME'' \<mapsto> or_None (u_detectorName c),
     ''DET_SER'' \<mapsto> or_None (u_detectorSerial c),
     ''FILTER'' \<mapsto> or_None (u_filter c),
     ''CALIB_ID'' \<mapsto> or_None (u_calibId c)]"

definition IsrCalib_updateMetadata ::
  "pyval \<Rightarrow> pyval \<Rightarrow> pyval \<Rightarrow> bool \<Rightarrow> bool \<Rightarrow> metadata \<Rightarrow> state \<Rightarrow> upd" where
  "IsrCalib_updateMetadata camera detector filterName setCalibId setDate kwargs st =
    (case st of (s, c) \<Rightarrow>
      (let mdOriginal = getMetadata c in
        (case updateMetadata_camera camera c of
           Inl e \<Rightarrow> Inl (e, (s, c))
         | Inr c1 \<Rightarrow>
            (case updateMetadata_detector detector c1 of
               Inl (e, c2) \<Rightarrow> Inl (e, (s, c2))
             | Inr c2 \<Rightarrow>
                (let c3 = (if truthy filterName then c2\<lparr>u_filter := filterName\<rparr> else c2) in
                  (if setCalibId then Inl (AttributeError ''_detector'', (s, c3))
                   else
                     (let mdSupplemental = date_entries setDate (now s);
                          s1 = write_identity c3 s;
                          mdSupplemental2 = mdSupplemental ++ kwargs
                      in Inr (update mdOriginal mdSupplemental2 s1, c3))))))))"

subsection \<open>\<^verbatim>\<open>IsrProvenance.updateMetadata\<close>\<close>

text \<open>
  \<^verbatim>\<open>def updateMetadata(self, setDate=False, **kwargs)\<close> stores \<^verbatim>\<open>calibType\<close> in \<open>kwargs\<close>
  and calls \<^verbatim>\<open>super().updateMetadata(setDate=setDate, **kwargs)\<close>.  The base method
  binds the keywords \<^verbatim>\<open>camera\<close>, \<^verbatim>\<open>detector\<close>, \<^verbatim>\<open>filterName\<close> and \<^verbatim>\<open>setCalibId\<close> to its
  parameters of those names; the others stay in its own \<open>kwargs\<close>.  The argument
  \<open>kwargs\<close> here holds the keywords of the call other than the explicit \<^verbatim>\<open>setDate=\<close>:
  a keyword \<^verbatim>\<open>setDate\<close> or \<^verbatim>\<open>self\<close> among them gives a parameter two values, which is
  a \<^verbatim>\<open>TypeError\<close> of the call.
\<close>

definition kwarg :: "metadata \<Rightarrow> string \<Rightarrow> pyval \<Rightarrow> pyval" where
  "kwarg kwargs name dflt = (case kwargs name of None \<Rightarrow> dflt | Some v \<Rightarrow> v)"

definition IsrProvenance_updateMetadata :: "bool \<Rightarrow> metadata \<Rightarrow> state \<Rightarrow> upd" where
  "IsrProvenance_updateMetadata setDate kwargs st =
    (case st of (s, c) \<Rightarrow>
      (let kwargs1 = kwargs(''calibType'' \<mapsto> calibType c) in
        (if kwargs ''setDate'' \<noteq> None \<or> kwargs ''self'' \<noteq> None then
           Inl (TypeError ''got multiple values for argument'', st)
         else
           IsrCalib_updateMetadata
             (kwarg kwargs1 ''camera'' PNone)
             (kwarg kwargs1 ''detector'' PNone)
             (kwarg kwargs1 ''filterName'' PNone)
             (truthy (kwarg kwargs1 ''setCalibId'' (PInt 0)))
             setDate
             (kwargs1 |` (- {''camera'', ''detector'', ''filterName'', ''setCalibId''}))
             st)))"

subsection \<open>Construction\<close>

text \<open>\<^verbatim>\<open>IsrCalib.fromDetector\<close>; \<^verbatim>\<open>IsrProvenance\<close> does not override it.\<close>

definition IsrCalib_fromDetector :: "pyval \<Rightarrow> state \<Rightarrow> upd" where
  "IsrCalib_fromDetector detector st =
     Inl (NotImplementedError ''Must be implemented by subclass.'', st)"

text \<open>
  The call \<^verbatim>\<open>self.updateMetadata(camera=camera, detector=detector, setDate=False)\<close> of
  \<^verbatim>\<open>IsrCalib.__init__\<close>, dispatched on the class of the instance.
\<close>

definition init_updateMetadata :: "pyval \<Rightarrow> pyval \<Rightarrow> state \<Rightarrow> upd" where
  "init_updateMetadata camera detector st =
    (case cls (snd st) of
       IsrCalib \<Rightarrow> IsrCalib_updateMetadata camera detector PNone False False Map.empty st
     | IsrProvenance \<Rightarrow>
         IsrProvenance_updateMetadata False [''camera'' \<mapsto> camera, ''detector'' \<mapsto> detector] st)"

text \<open>
  \<^verbatim>\<open>IsrProvenance.__init__\<close> followed by \<^verbatim>\<open>IsrCalib.__init__\<close>, for an instance of class
  \<open>k\<close>.  \<open>fromDetector\<close> is the method that \<^verbatim>\<open>self.fromDetector(detector)\<close> resolves to.
  An exception leaves no instance, so only the error is returned.  For \<open>k = IsrCalib\<close>
  the argument \<open>calibType0\<close> and the last three fields stand for nothing in the source.
\<close>

definition new_calib_with ::
  "(pyval \<Rightarrow> state \<Rightarrow> upd) \<Rightarrow> calib_class \<Rightarrow> pyval \<Rightarrow> pyval \<Rightarrow> pyval \<Rightarrow> pyval \<Rightarrow> pyval \<Rightarrow>
     store \<Rightarrow> error + state" where
  "new_calib_with fromDetector k calibType0 camera detector detectorName detectorId s =
    (case PropertyList s of (r0, s0) \<Rightarrow>
      (let self = \<lparr>cls = k, u_instrument = PNone, u_raftName = PNone, u_slotName = PNone,
                   u_detectorName = detectorName, u_detectorSerial = PNone,
                   u_detectorId = detectorId, u_filter = PNone, u_calibId = PNone,
                   u_metadata = r0, calibType = calibType0, dimensions = {},
                   dataIdList = []\<rparr>;
           st1 = setMetadata (Some r0) (s0, self)
       in (case (if truthy detector then fromDetector detector st1 else Inr st1) of
             Inl (e, st2) \<Rightarrow> Inl e
           | Inr st2 \<Rightarrow>
               (case init_updateMetadata camera detector st2 of
                  Inl (e, st3) \<Rightarrow> Inl e
                | Inr st3 \<Rightarrow> Inr st3))))"

definition new_calib ::
  "calib_class \<Rightarrow> pyval \<Rightarrow> pyval \<Rightarrow> pyval \<Rightarrow> pyval \<Rightarrow> pyval \<Rightarrow> store \<Rightarrow> error + state" where
  "new_calib = new_calib_with IsrCalib_fromDetector"

subsection \<open>\<^verbatim>\<open>IsrCalib.__eq__\<close>\<close>

text \<open>
  Two dictionaries are equal when they have the same keys with the same values,
  whatever the order of their items.
\<close>

definition dict_eq :: "dataId \<Rightarrow> dataId \<Rightarrow> bool" where
  "dict_eq a b = list_all (\<lambda>k. map_of a k = map_of b k) (map fst a @ map fst b)"

datatype attr =
    AVal pyval
  | AMeta metadata
  | ASet "string set"
  | AList "dataId list"

text \<open>\<^verbatim>\<open>x != y\<close> on attribute values.\<close>

fun attr_ne :: "attr \<Rightarrow> attr \<Rightarrow> bool" where
  "attr_ne (AVal x) (AVal y) = (x \<noteq> y)"
| "attr_ne (AMeta x) (AMeta y) = (x \<noteq> y)"
| "attr_ne (ASet x) (ASet y) = (x \<noteq> y)"
| "attr_ne (AList x) (AList y) = (\<not> list_all2 dict_eq x y)"
| "attr_ne x y = True"

text \<open>\<^verbatim>\<open>getattr(self, name)\<close>; \<open>None\<close> when the instance has no such attribute.\<close>

definition getattr :: "store \<Rightarrow> calib \<Rightarrow> string \<Rightarrow> attr option" where
  "getattr s c name =
    map_of
      ([(''_OBSTYPE'', AVal (PStr (OBSTYPE (cls c)))),
        (''_SCHEMA'', AVal (PStr (SCHEMA (cls c)))),
        (''_VERSION'', AVal (PInt (VERSION (cls c)))),
        (''_instrument'', AVal (u_instrument c)),
        (''_raftName'', AVal (u_raftName c)),
        (''_slotName'', AVal (u_slotName c)),
        (''_detectorName'', AVal (u_detectorName c)),
        (''_detectorSerial'', AVal (u_detectorSerial c)),
        (''_detectorId'', AVal (u_detectorId c)),
        (''_filter'', AVal (u_filter c)),
        (''_calibId'', AVal (u_calibId c)),
        (''_metadata'', AMeta (objs s (u_metadata c)))]
       @ (if cls c = IsrProvenance then
            [(''calibType'', AVal (calibType c)),
             (''dimensions'', ASet (dimensions c)),
             (''dataIdList'', AList (dataIdList c))]
          else []))
      name"

text \<open>
  The attribute names that \<^verbatim>\<open>__init__\<close> puts in \<^verbatim>\<open>requiredAttributes\<close>, per class.
\<close>

definition base_requiredAttributes :: "string list" where
  "base_requiredAttributes =
     [''_OBSTYPE'', ''_SCHEMA'', ''_VERSION'', ''_instrument'', ''_raftName'', ''_slotName'',
      ''_detectorName'', ''_detectorSerial'', ''_detectorId'', ''_filter'', ''_calibId'',
      ''_metadata'']"

fun requiredAttributes :: "calib_class \<Rightarrow> string list" where
  "requiredAttributes IsrCalib = base_requiredAttributes"
| "requiredAttributes IsrProvenance =
     base_requiredAttributes @ [''calibType'', ''dimensions'', ''dataIdList'']"

text \<open>\<^verbatim>\<open>isinstance(other, k)\<close>: \<^verbatim>\<open>IsrProvenance\<close> is a subclass of \<^verbatim>\<open>IsrCalib\<close>.\<close>

definition isinstance :: "calib \<Rightarrow> calib_class \<Rightarrow> bool" where
  "isinstance other k = (cls other = k \<or> k = IsrCalib)"

definition calib_eq :: "store \<Rightarrow> calib \<Rightarrow> calib \<Rightarrow> bool" where
  "calib_eq s self other =
    (if \<not> isinstance other (cls self) then False
     else
       list_all
         (\<lambda>a. case (getattr s self a, getattr s other a) of
                (Some x, Some y) \<Rightarrow> \<not> attr_ne x y
              | _ \<Rightarrow> False)
         (requiredAttributes (cls self)))"

subsection \<open>\<^verbatim>\<open>IsrProvenance.fromDataIds\<close>\<close>

text \<open>The inner loop \<^verbatim>\<open>for key in dataId\<close> over the keys of one identifier.\<close>

fun add_keys :: "string list \<Rightarrow> string set \<Rightarrow> string set" where
  "add_keys [] dims = dims"
| "add_keys (key # keys) dims =
     add_keys keys (if key \<notin> dims then insert key dims else dims)"

text \<open>
  The argument \<^verbatim>\<open>dataIdList\<close> is a list object: the list that the instance itself holds
  in \<^verbatim>\<open>self.dataIdList\<close> (the attribute is public, and \<^verbatim>\<open>toDict\<close> hands it out), or
  another one.
\<close>

datatype list_arg = Own | Other "dataId list"

text \<open>
  The loop \<^verbatim>\<open>for dataId in dataIdList\<close> over a list other than the instance's own: the
  list is the same at every pass.
\<close>

fun fromDataIds_other :: "dataId list \<Rightarrow> calib \<Rightarrow> calib" where
  "fromDataIds_other [] self = self"
| "fromDataIds_other (dataId # rest) self =
     fromDataIds_other rest
       (self\<lparr>dimensions := add_keys (map fst dataId) (dimensions self),
             dataIdList := dataIdList self @ [dataId]\<rparr>)"

text \<open>
  The same loop over the instance's own list.  The iterator of a list keeps an index
  \<open>i\<close> and stops when \<open>i\<close> has reached the length that the list has at that moment;
  every pass appends to the list.  The result is \<open>None\<close> when the loop does not end.
\<close>

partial_function (option) fromDataIds_own :: "nat \<Rightarrow> calib \<Rightarrow> calib option" where
  "fromDataIds_own i self =
     (if i < length (dataIdList self) then
        fromDataIds_own (Suc i)
          (self\<lparr>dimensions := add_keys (map fst (dataIdList self ! i)) (dimensions self),
                dataIdList := dataIdList self @ [dataIdList self ! i]\<rparr>)
      else Some self)"

definition fromDataIds :: "list_arg \<Rightarrow> calib \<Rightarrow> calib option" where
  "fromDataIds arg self =
    (case arg of
       Other ids \<Rightarrow> Some (fromDataIds_other ids self)
     | Own \<Rightarrow> fromDataIds_own 0 self)"

subsection \<open>\<^verbatim>\<open>IsrCalib.calibInfoFromDict\<close>\<close>

text \<open>
  The dictionary argument: its items other than \<^verbatim>\<open>'metadata'\<close>, and the dictionary
  under the key \<^verbatim>\<open>'metadata'\<close> when that key is present.
\<close>

datatype pydict = PyDict "(string \<times> pyval) list" "pydict option"

text \<open>
  The nested function \<^verbatim>\<open>search\<close>.  \<^verbatim>\<open>set([...])\<close> keeps one of each value, \<^verbatim>\<open>None\<close>
  included (it is what \<^verbatim>\<open>get\<close> returns for an absent key); \<^verbatim>\<open>test[0]\<close> on a set
  raises \<^verbatim>\<open>TypeError\<close>, as a set cannot be subscripted.
\<close>

fun search :: "pydict \<Rightarrow> string list \<Rightarrow> error + pyval" where
  "search (PyDict haystack md) needles =
    (let test = remdups (map (\<lambda>x. case map_of haystack x of None \<Rightarrow> PNone | Some v \<Rightarrow> v) needles)
     in (if length test = 0 then
           (case md of
              Some m \<Rightarrow> search m needles
            | None \<Rightarrow> Inr PNone)
         else if length test = 1 then Inl (TypeError ''set object is not subscriptable'')
         else Inl (ValueError ''Too many values found'')))"

text \<open>
  The check of \<^verbatim>\<open>OBSTYPE\<close>.  The message of the \<^verbatim>\<open>RuntimeError\<close> is an f-string that
  reads \<^verbatim>\<open>calib._OBSTYPE\<close>; no name \<^verbatim>\<open>calib\<close> is bound in the method or in the module,
  so building the message raises \<^verbatim>\<open>NameError\<close>.
\<close>

definition check_obstype :: "pydict \<Rightarrow> calib \<Rightarrow> error option" where
  "check_obstype dictionary self =
    (case dictionary of
       PyDict items None \<Rightarrow> None
     | PyDict items (Some (PyDict metadata mm)) \<Rightarrow>
         (case map_of metadata ''OBSTYPE'' of
            None \<Rightarrow> Some (KeyError ''OBSTYPE'')
          | Some found \<Rightarrow>
              (if PStr (OBSTYPE (cls self)) \<noteq> found
               then Some (NameError ''calib'')
               else None)))"

text \<open>One assignment \<^verbatim>\<open>self._x = search(dictionary, needles)\<close> after those before it.\<close>

definition assign_search ::
  "pydict \<Rightarrow> string list \<Rightarrow> (pyval \<Rightarrow> calib \<Rightarrow> calib) \<Rightarrow> (error \<times> calib) + calib \<Rightarrow>
     (error \<times> calib) + calib" where
  "assign_search dictionary needles assign r =
    (case r of
       Inl x \<Rightarrow> Inl x
     | Inr self \<Rightarrow>
         (case search dictionary needles of
            Inl e \<Rightarrow> Inl (e, self)
          | Inr v \<Rightarrow> Inr (assign v self)))"

definition calibInfoFromDict :: "pydict \<Rightarrow> state \<Rightarrow> upd" where
  "calibInfoFromDict dictionary st =
    (case st of (s, self) \<Rightarrow>
      (case check_obstype dictionary self of
         Some e \<Rightarrow> Inl (e, st)
       | None \<Rightarrow>
          (case
             assign_search dictionary [''CALIB_ID''] (\<lambda>v c. c\<lparr>u_calibId := v\<rparr>)
              (assign_search dictionary [''FILTER''] (\<lambda>v c. c\<lparr>u_filter := v\<rparr>)
               (assign_search dictionary [''DET_SER'', ''DETECTOR_SERIAL'', ''detectorSerial'']
                  (\<lambda>v c. c\<lparr>u_detectorSerial := v\<rparr>)
                (assign_search dictionary [''DET_NAME'', ''DETECTOR_NAME'', ''detectorName'']
                   (\<lambda>v c. c\<lparr>u_detectorName := v\<rparr>)
                 (assign_search dictionary [''DETECTOR'', ''detectorId'']
                    (\<lambda>v c. c\<lparr>u_detectorId := v\<rparr>)
                  (assign_search dictionary [''SLOTNAME''] (\<lambda>v c. c\<lparr>u_slotName := v\<rparr>)
                   (assign_search dictionary [''RAFTNAME''] (\<lambda>v c. c\<lparr>u_raftName := v\<rparr>)
                    (assign_search dictionary [''INSTRUME'', ''instrument'']
                       (\<lambda>v c. c\<lparr>u_instrument := v\<rparr>)
                     (Inr self)))))))) of
             Inl (e, c) \<Rightarrow> Inl (e, (s, c))
           | Inr c \<Rightarrow>
               (if \<not> truthy (u_detectorId c) \<and> truthy (u_detectorSerial c)
                then Inr (s, c\<lparr>u_detectorId := u_detectorSerial c\<rparr>)
                else Inr (s, c)))))"

section \<open>\<^verbatim>\<open>IsrProvenance\<close>: dictionaries and tables\<close>

text \<open>
  The dictionary that \<^verbatim>\<open>toDict\<close> builds and \<^verbatim>\<open>fromDict\<close> reads has seven keys; a field
  is \<open>None\<close> when the key is absent.  The value under \<^verbatim>\<open>'metadata'\<close> is a
  \<^verbatim>\<open>PropertyList\<close>, held by reference (\<open>PL\<close>), or a plain dictionary (\<open>Plain\<close>).  The
  set \<^verbatim>\<open>self.dimensions\<close> is iterated by \<^verbatim>\<open>list(self.dimensions)\<close> and by the table
  constructor in an order the language does not fix: \<open>toDict\<close> and \<open>toTable\<close> take that
  order as the argument \<open>order\<close>, a list of the elements of the set.
\<close>

datatype mapping_arg = PL nat | Plain metadata

fun deref :: "store \<Rightarrow> mapping_arg \<Rightarrow> metadata" where
  "deref s (PL r) = objs s r"
| "deref s (Plain m) = m"

record prov_dict =
  d_metadata :: "mapping_arg option"
  d_detectorName :: "pyval option"
  d_detectorSerial :: "pyval option"
  d_instrument :: "pyval option"
  d_calibType :: "pyval option"
  d_dimensions :: "string list option"
  d_dataIdList :: "dataId list option"

subsection \<open>\<^verbatim>\<open>IsrProvenance.toDict\<close>\<close>

definition toDict :: "string list \<Rightarrow> state \<Rightarrow> (error \<times> state) + (prov_dict \<times> state)" where
  "toDict order st =
    (case IsrProvenance_updateMetadata True Map.empty st of
       Inl x \<Rightarrow> Inl x
     | Inr (s, self) \<Rightarrow>
         Inr (\<lparr>d_metadata = Some (PL (getMetadata self)),
               d_detectorName = Some (u_detectorName self),
               d_detectorSerial = Some (u_detectorSerial self),
               d_instrument = Some (u_instrument self),
               d_calibType = Some (calibType self),
               d_dimensions = Some order,
               d_dataIdList = Some (dataIdList self)\<rparr>, (s, self)))"

subsection \<open>\<^verbatim>\<open>IsrProvenance.fromDict\<close>\<close>

text \<open>
  \<^verbatim>\<open>dictionary.get(key, dictionary['metadata'].get(mdkey, None))\<close>.
\<close>

definition get_or_metadata :: "pyval option \<Rightarrow> metadata \<Rightarrow> string \<Rightarrow> pyval" where
  "get_or_metadata toplevel metadata mdkey =
    (case toplevel of
       Some v \<Rightarrow> v
     | None \<Rightarrow> (case metadata mdkey of None \<Rightarrow> PNone | Some v \<Rightarrow> v))"

definition fromDict :: "prov_dict \<Rightarrow> store \<Rightarrow> error + state" where
  "fromDict dictionary s =
    (case new_calib IsrProvenance (PStr ''unknown'') PNone PNone PNone PNone s of
       Inl e \<Rightarrow> Inl e
     | Inr st0 \<Rightarrow>
        (case d_metadata dictionary of
           None \<Rightarrow> Inl (KeyError ''metadata'')
         | Some md \<Rightarrow>
            (case IsrProvenance_updateMetadata False (deref (fst st0) md) st0 of
               Inl (e, st1) \<Rightarrow> Inl e
             | Inr (s1, calib) \<Rightarrow>
                (case d_calibType dictionary of
                   None \<Rightarrow> Inl (KeyError ''calibType'')
                 | Some ct \<Rightarrow>
                    (case d_dimensions dictionary of
                       None \<Rightarrow> Inl (KeyError ''dimensions'')
                     | Some dims \<Rightarrow>
                        (case d_dataIdList dictionary of
                           None \<Rightarrow> Inl (KeyError ''dataIdList'')
                         | Some ids \<Rightarrow>
                            (case IsrProvenance_updateMetadata False Map.empty
                                    (s1, calib
                                       \<lparr>u_detectorName :=
                                          get_or_metadata (d_detectorName dictionary) (deref s1 md) ''DET_NAME'',
                                        u_detectorSerial :=
                                          get_or_metadata (d_detectorSerial dictionary) (deref s1 md) ''DET_SER'',
                                        u_instrument :=
                                          get_or_metadata (d_instrument dictionary) (deref s1 md) ''INSTRUME'',
                                        calibType := ct,
                                        dimensions := set dims,
                                        dataIdList := ids\<rparr>) of
                               Inl (e, st2) \<Rightarrow> Inl e
                             | Inr st2 \<Rightarrow> Inr st2)))))))"

subsection \<open>Tables\<close>

text \<open>
  A table of \<^verbatim>\<open>astropy.table.Table\<close>, as far as the module uses one: the column names
  in order, the rows, and the metadata dictionary \<^verbatim>\<open>meta\<close>.  A row is kept as the
  mapping from column name to cell that \<^verbatim>\<open>row[name]\<close> reads.

  The constructor call \<^verbatim>\<open>Table(rows=rows, names=names)\<close> takes a list of dictionaries as
  the rows and makes one column of each name, from the cells that the rows hold under
  it.  A column is an array of one type (\<^verbatim>\<open>numpy.array\<close> of its cells): in a column of
  integers and strings together the integers become their decimal strings (a \<^verbatim>\<open>bool\<close>
  would become \<^verbatim>\<open>'True'\<close> or \<^verbatim>\<open>'False'\<close>: the integers of a table are not taken to be
  truth values); in an array
  of strings a string ends before its trailing NUL characters; a column of integers
  alone keeps its cells, which are taken to fit the 64-bit integers of the array; a
  column with \<^verbatim>\<open>None\<close> or a descriptor in it is an array of objects and keeps its cells.
  A column whose name is empty is given the name \<^verbatim>\<open>col\<close> followed by its index.  A table
  without columns has no rows.  The exceptions of the constructor, for names that are
  not the keys of the rows, are not modelled: a row that lacks a column shows as a
  \<^verbatim>\<open>KeyError\<close> when the cell is read.
\<close>

record table =
  columns :: "string list"
  rows :: "dataId list"
  meta :: metadata

text \<open>\<^verbatim>\<open>str(i)\<close> of an integer: its decimal digits.\<close>

definition digit_char :: "nat \<Rightarrow> char" where
  "digit_char d = ''0123456789'' ! d"

function str_nat :: "nat \<Rightarrow> string" where
  "str_nat n = (if n < 10 then [digit_char n] else str_nat (n div 10) @ [digit_char (n mod 10)])"
  by pat_completeness auto
termination
  by (relation "measure id") auto

declare str_nat.simps [simp del]

definition str_int :: "int \<Rightarrow> string" where
  "str_int i = (if i < 0 then CHR ''-'' # str_nat (nat (- i)) else str_nat (nat i))"

definition is_int :: "pyval \<Rightarrow> bool" where
  "is_int v = (case v of PInt i \<Rightarrow> True | _ \<Rightarrow> False)"

definition is_str :: "pyval \<Rightarrow> bool" where
  "is_str v = (case v of PStr str \<Rightarrow> True | _ \<Rightarrow> False)"

definition rstrip_nul :: "string \<Rightarrow> string" where
  "rstrip_nul str = rev (dropWhile (\<lambda>ch. ch = CHR 0x00) (rev str))"

text \<open>The cells that the rows hold under a name.\<close>

definition column :: "dataId list \<Rightarrow> string \<Rightarrow> pyval list" where
  "column rws name =
     concat (map (\<lambda>row. case map_of row name of None \<Rightarrow> [] | Some v \<Rightarrow> [v]) rws)"

text \<open>Whether the array of these cells is an array of strings, and a cell in the array.\<close>

definition str_column :: "pyval list \<Rightarrow> bool" where
  "str_column cells = (list_all (\<lambda>v. is_int v \<or> is_str v) cells \<and> list_ex is_str cells)"

definition array_cell :: "bool \<Rightarrow> pyval \<Rightarrow> pyval" where
  "array_cell as_str v =
    (if as_str then
       (case v of
          PInt i \<Rightarrow> PStr (str_int i)
        | PStr str \<Rightarrow> PStr (rstrip_nul str)
        | x \<Rightarrow> x)
     else v)"

definition auto_name :: "nat \<Rightarrow> string \<Rightarrow> string" where
  "auto_name i name = (if name = [] then ''col'' @ str_nat i else name)"

definition Table :: "dataId list \<Rightarrow> string list \<Rightarrow> table" where
  "Table rws names =
    (let named = zip (map2 auto_name [0..<length names] names) names
     in \<lparr>columns = map fst named,
         rows =
           (if names = [] then []
            else map (\<lambda>row.
                   concat (map (\<lambda>(col, name).
                             case map_of row name of
                               None \<Rightarrow> []
                             | Some v \<Rightarrow> [(col, array_cell (str_column (column rws name)) v)])
                           named))
                 rws),
         meta = Map.empty\<rparr>)"

text \<open>
  \<^verbatim>\<open>str.lower()\<close>.  A string is a sequence of code points below 256; among these the
  upper-case letters are \<^verbatim>\<open>A\<close> to \<^verbatim>\<open>Z\<close> and the code points U+00C0 to U+00DE other than
  U+00D7, each 32 below its lower-case letter.
\<close>

definition upper_chars :: string where
  "upper_chars = ''ABCDEFGHIJKLMNOPQRSTUVWXYZ'' @
     [CHR 0xC0, CHR 0xC1, CHR 0xC2, CHR 0xC3, CHR 0xC4, CHR 0xC5, CHR 0xC6, CHR 0xC7,
      CHR 0xC8, CHR 0xC9, CHR 0xCA, CHR 0xCB, CHR 0xCC, CHR 0xCD, CHR 0xCE, CHR 0xCF,
      CHR 0xD0, CHR 0xD1, CHR 0xD2, CHR 0xD3, CHR 0xD4, CHR 0xD5, CHR 0xD6,
      CHR 0xD8, CHR 0xD9, CHR 0xDA, CHR 0xDB, CHR 0xDC, CHR 0xDD, CHR 0xDE]"

definition lower_chars :: string where
  "lower_chars = ''abcdefghijklmnopqrstuvwxyz'' @
     [CHR 0xE0, CHR 0xE1, CHR 0xE2, CHR 0xE3, CHR 0xE4, CHR 0xE5, CHR 0xE6, CHR 0xE7,
      CHR 0xE8, CHR 0xE9, CHR 0xEA, CHR 0xEB, CHR 0xEC, CHR 0xED, CHR 0xEE, CHR 0xEF,
      CHR 0xF0, CHR 0xF1, CHR 0xF2, CHR 0xF3, CHR 0xF4, CHR 0xF5, CHR 0xF6,
      CHR 0xF8, CHR 0xF9, CHR 0xFA, CHR 0xFB, CHR 0xFC, CHR 0xFD, CHR 0xFE]"

definition lower_char :: "char \<Rightarrow> char" where
  "lower_char ch =
    (case map_of (zip upper_chars lower_chars) ch of
       Some l \<Rightarrow> l
     | None \<Rightarrow> ch)"

definition lower :: "string \<Rightarrow> string" where
  "lower str = map lower_char str"

subsection \<open>\<^verbatim>\<open>IsrProvenance.toTable\<close>\<close>

text \<open>
  \<^verbatim>\<open>{k: v for k, v in self.getMetadata().toDict().items() if v is not None}\<close>.
\<close>

definition filteredMetadata :: "metadata \<Rightarrow> metadata" where
  "filteredMetadata md = (\<lambda>k. case md k of Some PNone \<Rightarrow> None | x \<Rightarrow> x)"

definition toTable :: "string list \<Rightarrow> state \<Rightarrow> (error \<times> state) + (table list \<times> state)" where
  "toTable order st =
    (case IsrProvenance_updateMetadata True Map.empty st of
       Inl x \<Rightarrow> Inl x
     | Inr (s, self) \<Rightarrow>
         (let catalog = Table (dataIdList self) order
          in Inr ([catalog\<lparr>meta := filteredMetadata (objs s (getMetadata self))\<rparr>], (s, self))))"

subsection \<open>\<^verbatim>\<open>IsrProvenance.fromTable\<close>\<close>

text \<open>
  The loop over \<^verbatim>\<open>table.columns\<close> fills \<^verbatim>\<open>schema\<close> and the set of dimensions; the
  loop over the rows reads, for each dimension in sorted order, the cell of the column
  that \<^verbatim>\<open>schema\<close> names.
\<close>

fun read_schema ::
  "string list \<Rightarrow> (string \<rightharpoonup> string) \<times> string set \<Rightarrow> (string \<rightharpoonup> string) \<times> string set" where
  "read_schema [] acc = acc"
| "read_schema (colName # cols) (schema, dims) =
     read_schema cols (schema(lower colName \<mapsto> colName), insert (lower colName) dims)"

fun read_entry :: "(string \<rightharpoonup> string) \<Rightarrow> dataId \<Rightarrow> string list \<Rightarrow> error + dataId" where
  "read_entry schema row [] = Inr []"
| "read_entry schema row (dim # dims) =
     (case schema dim of
        None \<Rightarrow> Inl (KeyError dim)
      | Some col \<Rightarrow>
          (case map_of row col of
             None \<Rightarrow> Inl (KeyError col)
           | Some v \<Rightarrow>
               (case read_entry schema row dims of
                  Inl e \<Rightarrow> Inl e
                | Inr entry \<Rightarrow> Inr ((dim, v) # entry))))"

fun read_rows :: "(string \<rightharpoonup> string) \<Rightarrow> string list \<Rightarrow> dataId list \<Rightarrow> error + dataId list" where
  "read_rows schema dims [] = Inr []"
| "read_rows schema dims (row # rws) =
     (case read_entry schema row dims of
        Inl e \<Rightarrow> Inl e
      | Inr entry \<Rightarrow>
          (case read_rows schema dims rws of
             Inl e \<Rightarrow> Inl e
           | Inr entries \<Rightarrow> Inr (entry # entries)))"

definition fromTable :: "table list \<Rightarrow> store \<Rightarrow> error + state" where
  "fromTable tableList s =
    (case tableList of
       [] \<Rightarrow> Inl (IndexError ''list index out of range'')
     | tbl # others \<Rightarrow>
        (let metadata = meta tbl in
          (case metadata ''calibType'' of
             None \<Rightarrow> Inl (KeyError ''calibType'')
           | Some ct \<Rightarrow>
              (case read_schema (columns tbl) (Map.empty, {}) of
                 (schema, dims) \<Rightarrow>
                   (case read_rows schema (sorted_list_of_set dims) (rows tbl) of
                      Inl e \<Rightarrow> Inl e
                    | Inr ids \<Rightarrow>
                        fromDict
                          \<lparr>d_metadata = Some (Plain metadata),
                           d_detectorName = Some (case metadata ''DET_NAME'' of None \<Rightarrow> PNone | Some v \<Rightarrow> v),
                           d_detectorSerial = Some (case metadata ''DET_SER'' of None \<Rightarrow> PNone | Some v \<Rightarrow> v),
                           d_instrument = Some (case metadata ''INSTRUME'' of None \<Rightarrow> PNone | Some v \<Rightarrow> v),
                           d_calibType = Some ct,
                           d_dimensions = Some (sorted_list_of_set dims),
                           d_dataIdList = Some ids\<rparr>
                          s)))))"

section \<open>Reading and writing files\<close>

text \<open>
  The file system maps a path to the content of the file there.  A YAML file holds
  the dictionary that was dumped, an ECSV file holds one table, a FITS file holds its
  sequence of header-data units.  The methods of \<^verbatim>\<open>IsrCalib\<close> call \<^verbatim>\<open>self.toDict()\<close>,
  \<^verbatim>\<open>self.toTable()\<close> and \<^verbatim>\<open>cls.fromTable(...)\<close>, which a subclass supplies: they are
  arguments here.  Opening and writing a file is taken not to fail.
\<close>

datatype hdu = PrimaryHDU | BinTableHDU table

datatype 'd content = YamlFile 'd | EcsvFile table | FitsFile "hdu list"

type_synonym 'd files = "string \<rightharpoonup> 'd content"

text \<open>\<^verbatim>\<open>str.endswith(suffixes)\<close> with a tuple of suffixes.\<close>

definition endswith :: "string \<Rightarrow> string list \<Rightarrow> bool" where
  "endswith str suffixes =
    list_ex (\<lambda>suffix. length suffix \<le> length str \<and> drop (length str - length suffix) str = suffix)
      suffixes"

text \<open>
  \<^verbatim>\<open>os.path.splitext\<close> of \<^verbatim>\<open>posixpath\<close>: \<^verbatim>\<open>rfind\<close> gives the last index of a character or
  \<open>-1\<close>; the extension starts at the last dot of the last path component, unless only
  dots stand before it in that component.
\<close>

definition rfind :: "string \<Rightarrow> char \<Rightarrow> int" where
  "rfind p ch =
    (case filter (\<lambda>i. p ! i = ch) (rev [0..<length p]) of
       [] \<Rightarrow> - 1
     | i # others \<Rightarrow> int i)"

function skip_dots :: "string \<Rightarrow> int \<Rightarrow> int \<Rightarrow> (string \<times> string) option" where
  "skip_dots p filenameIndex dotIndex =
    (if filenameIndex < dotIndex then
       (if p ! nat filenameIndex \<noteq> CHR ''.''
        then Some (take (nat dotIndex) p, drop (nat dotIndex) p)
        else skip_dots p (filenameIndex + 1) dotIndex)
     else None)"
  by pat_completeness auto
termination
  by (relation "measure (\<lambda>(p, filenameIndex, dotIndex). nat (dotIndex - filenameIndex))") auto

declare skip_dots.simps [simp del]

definition splitext :: "string \<Rightarrow> string \<times> string" where
  "splitext p =
    (let sepIndex = rfind p (CHR ''/'');
         dotIndex = rfind p (CHR ''.'')
     in (if dotIndex > sepIndex then
           (case skip_dots p (sepIndex + 1) dotIndex of
              Some r \<Rightarrow> r
            | None \<Rightarrow> (p, []))
         else (p, [])))"

subsection \<open>\<^verbatim>\<open>IsrCalib.writeText\<close>\<close>

text \<open>
  The message of the second \<^verbatim>\<open>RuntimeError\<close> also holds the number of tables; the
  number is left out here.
\<close>

definition quoted :: "string \<Rightarrow> string" where
  "quoted str = CHR 0x27 # str @ [CHR 0x27]"

definition writeText ::
  "('s \<Rightarrow> (error \<times> 's) + ('d \<times> 's)) \<Rightarrow> ('s \<Rightarrow> (error \<times> 's) + (table list \<times> 's)) \<Rightarrow>
     string \<Rightarrow> string \<Rightarrow> 'd files \<times> 's \<Rightarrow> (error \<times> 'd files \<times> 's) + (string \<times> 'd files \<times> 's)" where
  "writeText self_toDict self_toTable filename format st =
    (case st of (fs, self) \<Rightarrow>
      (if format = ''yaml'' \<or> (format = ''auto'' \<and> endswith (lower filename) [''.yaml'', ''.YAML'']) then
         (case self_toDict self of
            Inl (e, self1) \<Rightarrow> Inl (e, fs, self1)
          | Inr (outDict, self1) \<Rightarrow>
              (case splitext filename of
                 (path, ext) \<Rightarrow>
                   Inr (path @ ''.yaml'', fs(path @ ''.yaml'' \<mapsto> YamlFile outDict), self1)))
       else if format = ''ecsv'' \<or> (format = ''auto'' \<and> endswith (lower filename) [''.ecsv'', ''.ECSV'']) then
         (case self_toTable self of
            Inl (e, self1) \<Rightarrow> Inl (e, fs, self1)
          | Inr (tableList, self1) \<Rightarrow>
              (if length tableList > 1 then
                 Inl (RuntimeError ''Unable to persist tables in ECSV format.'', fs, self1)
               else
                 (case tableList of
                    [] \<Rightarrow> Inl (IndexError ''list index out of range'', fs, self1)
                  | tbl # others \<Rightarrow>
                      (case splitext filename of
                         (path, ext) \<Rightarrow>
                           Inr (path @ ''.ecsv'', fs(path @ ''.ecsv'' \<mapsto> EcsvFile tbl), self1)))))
       else
         Inl (RuntimeError
                (''Attempt to write to a file '' @ filename @ '' that does not end in ''
                   @ quoted ''.yaml'' @ '' or '' @ quoted ''.ecsv''),
              fs, self)))"

subsection \<open>\<^verbatim>\<open>IsrCalib.writeFits\<close>, \<^verbatim>\<open>IsrCalib.readFits\<close>\<close>

definition writeFits ::
  "('s \<Rightarrow> (error \<times> 's) + (table list \<times> 's)) \<Rightarrow> string \<Rightarrow> 'd files \<times> 's \<Rightarrow>
     (error \<times> 'd files \<times> 's) + (string \<times> 'd files \<times> 's)" where
  "writeFits self_toTable filename st =
    (case st of (fs, self) \<Rightarrow>
      (case self_toTable self of
         Inl (e, self1) \<Rightarrow> Inl (e, fs, self1)
       | Inr (tableList, self1) \<Rightarrow>
           (let astropyList = PrimaryHDU # map BinTableHDU tableList
            in Inr (filename, fs(filename \<mapsto> FitsFile astropyList), self1))))"

text \<open>
  \<^verbatim>\<open>Table.read(filename, hdu=n)\<close>: the table in unit \<open>n\<close> of the FITS file; a unit that
  is no table, or that the file does not have, raises \<^verbatim>\<open>ValueError\<close>.
\<close>

definition Table_read :: "'d files \<Rightarrow> string \<Rightarrow> nat \<Rightarrow> error + table" where
  "Table_read fs filename n =
    (case fs filename of
       Some (FitsFile hdus) \<Rightarrow>
         (if n < length hdus then
            (case hdus ! n of
               BinTableHDU tbl \<Rightarrow> Inr tbl
             | PrimaryHDU \<Rightarrow> Inl (ValueError ''No table found'')) 
          else Inl (ValueError ''No table found''))
     | _ \<Rightarrow> Inl (OSError filename))"

text \<open>
  \<^verbatim>\<open>warnings.catch_warnings\<close> of the standard library takes keyword arguments only
  (\<^verbatim>\<open>def __init__(self, *, record=False, module=None)\<close>): called with positional
  arguments it raises \<^verbatim>\<open>TypeError\<close>.
\<close>

definition catch_warnings :: "string list \<Rightarrow> error + unit" where
  "catch_warnings args =
    (if args = [] then Inr ()
     else Inl (TypeError ''__init__() takes 1 positional argument but 2 were given''))"

text \<open>
  The list \<^verbatim>\<open>tableList\<close> that \<^verbatim>\<open>readFits\<close> hands to \<^verbatim>\<open>cls.fromTable\<close>.  The \<^verbatim>\<open>try\<close> block
  is run once; any exception in it is passed over.
\<close>

definition readFits_tableList :: "'d files \<Rightarrow> string \<Rightarrow> error + table list" where
  "readFits_tableList fs filename =
    (case Table_read fs filename 1 of
       Inl e \<Rightarrow> Inl e
     | Inr first \<Rightarrow>
         (let tableList = [first];
              extNum = 2
          in (case catch_warnings [''error''] of
                Inl e \<Rightarrow> Inr tableList
              | Inr u \<Rightarrow>
                  (case Table_read fs filename extNum of
                     Inl e \<Rightarrow> Inr tableList
                   | Inr newTable \<Rightarrow> Inr (tableList @ [newTable])))))"

definition readFits ::
  "(table list \<Rightarrow> 's \<Rightarrow> error + 'r) \<Rightarrow> string \<Rightarrow> 'd files \<Rightarrow> 's \<Rightarrow> error + 'r" where
  "readFits cls_fromTable filename fs s =
    (case readFits_tableList fs filename of
       Inl e \<Rightarrow> Inl e
     | Inr tableList \<Rightarrow> cls_fromTable tableList s)"

section \<open>Notions used in the statements\<close>

text \<open>
  What a call of \<^verbatim>\<open>updateMetadata\<close> that is given no camera, detector, filter name or
  \<^verbatim>\<open>setCalibId\<close> leaves in the store: the identity entries, then the creation-time
  entries and the keyword arguments, written into the instance's metadata.
\<close>

definition written :: "bool \<Rightarrow> metadata \<Rightarrow> store \<Rightarrow> calib \<Rightarrow> store" where
  "written setDate kwargs s c =
     s\<lparr>objs := (objs s)(u_metadata c :=
           (objs s (u_metadata c) ++ identity_entries c) ++ (date_entries setDate (now s) ++ kwargs))\<rparr>"

text \<open>The three entries that \<^verbatim>\<open>setMetadata\<close> writes for class \<open>k\<close>.\<close>

definition class_entries :: "calib_class \<Rightarrow> metadata" where
  "class_entries k =
     [''OBSTYPE'' \<mapsto> PStr (OBSTYPE k),
      OBSTYPE k @ ''_SCHEMA'' \<mapsto> PStr (SCHEMA k),
      OBSTYPE k @ ''_VERSION'' \<mapsto> PInt (VERSION k)]"

text \<open>The attributes of a newly constructed \<^verbatim>\<open>IsrProvenance\<close> whose metadata is at \<open>r\<close>.\<close>

definition fresh_prov :: "pyval \<Rightarrow> pyval \<Rightarrow> pyval \<Rightarrow> nat \<Rightarrow> calib" where
  "fresh_prov ct dn di r =
     \<lparr>cls = IsrProvenance, u_instrument = PNone, u_raftName = PNone, u_slotName = PNone,
      u_detectorName = dn, u_detectorSerial = PNone, u_detectorId = di, u_filter = PNone,
      u_calibId = PNone, u_metadata = r, calibType = ct, dimensions = {}, dataIdList = []\<rparr>"

text \<open>A reference under \<^verbatim>\<open>'metadata'\<close> points to an object that exists.\<close>

fun mdref_ok :: "mapping_arg \<Rightarrow> store \<Rightarrow> bool" where
  "mdref_ok (PL r) s = (r < nxt s)"
| "mdref_ok (Plain m) s = True"

text \<open>
  No key of the metadata is the name of a parameter of \<^verbatim>\<open>updateMetadata\<close>.  (\<^verbatim>\<open>fromDict\<close>
  passes the metadata as keyword arguments: such a key would be bound to the
  parameter instead of being stored.)
\<close>

definition no_keywords :: "metadata \<Rightarrow> bool" where
  "no_keywords m = (m ''self'' = None \<and> m ''setDate'' = None \<and> m ''camera'' = None \<and>
      m ''detector'' = None \<and> m ''filterName'' = None \<and> m ''setCalibId'' = None)"

text \<open>
  The metadata of the instance that \<^verbatim>\<open>fromDict\<close> returns, when the dictionary's
  metadata is \<open>M\<close> and the returned attributes are \<open>c2\<close>: the writes of the constructor,
  of the first \<^verbatim>\<open>updateMetadata\<close> and of the second, in that order.
\<close>

definition fromDict_md :: "metadata \<Rightarrow> calib \<Rightarrow> metadata" where
  "fromDict_md M c2 =
     ((((class_entries IsrProvenance ++ identity_entries (fresh_prov (PStr ''unknown'') PNone PNone 0))
         ++ [''calibType'' \<mapsto> PStr ''unknown''])
        ++ identity_entries (fresh_prov (PStr ''unknown'') PNone PNone 0))
       ++ (M(''calibType'' \<mapsto> PStr ''unknown'')))
      ++ identity_entries c2 ++ [''calibType'' \<mapsto> calibType c2]"

text \<open>An identity attribute that \<^verbatim>\<open>x if x else None\<close> leaves as it is.\<close>

definition unset_or_truthy :: "pyval \<Rightarrow> bool" where
  "unset_or_truthy v = (v = PNone \<or> truthy v)"

definition identity_keys :: "string list" where
  "identity_keys = [''INSTRUME'', ''RAFTNAME'', ''SLOTNAME'', ''DETECTOR'', ''DET_NAME'', ''DET_SER'',
     ''FILTER'', ''CALIB_ID'']"

definition date_keys :: "string list" where
  "date_keys = [''CALIBDATE'', ''CALIB_CREATION_DATE'', ''CALIB_CREATION_TIME'']"

definition class_keys :: "string list" where
  "class_keys = [''OBSTYPE'', ''IsrProvenance_SCHEMA'', ''IsrProvenance_VERSION'']"

text \<open>The keys that \<^verbatim>\<open>IsrProvenance.updateMetadata(setDate=True)\<close> overwrites.\<close>

definition reserved_keys :: "string list" where
  "reserved_keys = identity_keys @ [''calibType''] @ date_keys"

text \<open>The union of the keys of a list of identifiers.\<close>

fun all_keys :: "dataId list \<Rightarrow> string set" where
  "all_keys [] = {}"
| "all_keys (d # ds) = set (map fst d) \<union> all_keys ds"

subsection \<open>Concrete inputs\<close>

text \<open>
  The cells that a table gives back as they were: an integer of 64 bits, and a string
  that does not end in a NUL character; and a column of one type: integers only, or
  strings only.
\<close>

definition plain_cell :: "pyval \<Rightarrow> bool" where
  "plain_cell v =
    (case v of
       PInt i \<Rightarrow> - (2 ^ 63) \<le> i \<and> i < 2 ^ 63
     | PStr str \<Rightarrow> rstrip_nul str = str
     | _ \<Rightarrow> False)"

definition one_type :: "pyval list \<Rightarrow> bool" where
  "one_type cells = (list_all is_int cells \<or> list_all is_str cells)"

text \<open>
  A sequence of calls of \<^verbatim>\<open>fromDataIds\<close> on one instance, one argument for each call;
  the sequence returns when every call does.  The identifiers that a call supplies:
  those of its argument; a call with the instance's own list has nothing to add when
  it returns.
\<close>

fun fromDataIds_calls :: "list_arg list \<Rightarrow> calib \<Rightarrow> calib option" where
  "fromDataIds_calls [] c = Some c"
| "fromDataIds_calls (arg # args) c =
     (case fromDataIds arg c of
        None \<Rightarrow> None
      | Some c' \<Rightarrow> fromDataIds_calls args c')"

definition supplied :: "list_arg \<Rightarrow> dataId list" where
  "supplied arg = (case arg of Other ids \<Rightarrow> ids | Own \<Rightarrow> [])"

text \<open>
  An empty store, the provenance \<^verbatim>\<open>IsrProvenance(calibType="flat")\<close> made in it
  (\<open>flat0\<close>), and a second one made after it (\<open>flat1\<close>, further down).
\<close>

definition store0 :: store where
  "store0 = \<lparr>objs = (\<lambda>r. Map.empty), nxt = 0,
             now = \<lparr>isoformat = ''2020-05-01T12:00:00'', date_isoformat = ''2020-05-01'',
                    time_isoformat = ''12:00:00''\<rparr>\<rparr>"

definition flat0 :: state where
  "flat0 =
    (case new_calib IsrProvenance (PStr ''flat'') PNone PNone PNone PNone store0 of
       Inr st \<Rightarrow> st
     | Inl e \<Rightarrow> (store0, fresh_prov PNone PNone PNone 0))"

text \<open>The identifiers of the scenario of the specification.\<close>

definition scenario_ids :: "dataId list" where
  "scenario_ids =
    [[(''exposure'', PInt 100), (''detector'', PInt 5)],
     [(''exposure'', PInt 101), (''detector'', PInt 5)]]"


text \<open>A \<^verbatim>\<open>toTable\<close> of some subclass that returns two tables.\<close>

definition two_tables :: "state \<Rightarrow> (error \<times> state) + (table list \<times> state)" where
  "two_tables st = (case toTable [] st of Inl x \<Rightarrow> Inl x | Inr (ts, st') \<Rightarrow> Inr (ts @ ts, st'))"

section \<open>Facts about the operations\<close>

subsection \<open>Splitting strings and paths\<close>

lemma str_split_length: "length (str_split sep s) = Suc (length (filter (\<lambda>x. x = sep) s))"
  by (induction s) (auto split: list.splits)

lemma str_split_ne: "str_split sep s \<noteq> []"
  by (induction s) (auto split: list.splits)

lemma str_split_concat:
  "str_split sep s = p # ps \<Longrightarrow> s = p @ concat (map (\<lambda>q. sep # q) ps)"
  by (induction s arbitrary: p ps) (auto simp: str_split_ne split: list.splits if_splits)

lemma str_split_no_sep: "p \<in> set (str_split sep s) \<Longrightarrow> sep \<notin> set p"
  by (induction s arbitrary: p) (auto split: list.splits if_splits)

lemma str_split_two:
  assumes "length (filter (\<lambda>x. x = sep) s) = 1"
  shows "\<exists>a b. str_split sep s = [a, b] \<and> s = a @ sep # b \<and> sep \<notin> set a \<and> sep \<notin> set b"
proof -
  have "length (str_split sep s) = Suc (Suc 0)" using assms by (simp add: str_split_length)
  then obtain a b where ab: "str_split sep s = [a, b]"
    by (auto simp: length_Suc_conv)
  have "s = a @ sep # b" using str_split_concat[OF ab] by simp
  moreover have "sep \<notin> set a" "sep \<notin> set b" using str_split_no_sep[of _ sep s] ab by auto
  ultimately show ?thesis using ab by blast
qed

lemma unpack_two:
  assumes "length (filter (\<lambda>x. x = CHR ''_'') n) = 1"
  shows "\<exists>a b. n = a @ CHR ''_'' # b \<and> CHR ''_'' \<notin> set a \<and> CHR ''_'' \<notin> set b \<and>
     unpack_raft_slot n c = Inr (c\<lparr>u_raftName := PStr a, u_slotName := PStr b\<rparr>)"
proof -
  obtain a b where ab: "str_split (CHR ''_'') n = [a, b]" "n = a @ CHR ''_'' # b"
      "CHR ''_'' \<notin> set a" "CHR ''_'' \<notin> set b"
    using str_split_two[OF assms] by blast
  have "unpack_raft_slot n c = Inr (c\<lparr>u_raftName := PStr a, u_slotName := PStr b\<rparr>)"
    using ab(1) by (simp add: unpack_raft_slot_def)
  with ab show ?thesis by blast
qed

lemma unpack_many:
  assumes "2 \<le> length (filter (\<lambda>x. x = CHR ''_'') n)"
  shows "unpack_raft_slot n c = Inl (ValueError ''too many values to unpack (expected 2)'', c)"
proof -
  have "Suc (Suc (Suc 0)) \<le> length (str_split (CHR ''_'') n)"
    using assms by (simp add: str_split_length)
  then obtain x y z zs where "str_split (CHR ''_'') n = x # y # z # zs"
    by (auto simp: Suc_le_length_iff)
  then show ?thesis by (simp add: unpack_raft_slot_def)
qed

lemma skip_dots_concat: "skip_dots p i j = Some r \<Longrightarrow> fst r @ snd r = p"
proof (induction p i j rule: skip_dots.induct)
  case (1 p filenameIndex dotIndex)
  from "1.prems" show ?case
    by (subst (asm) skip_dots.simps) (auto split: if_splits dest: "1.IH")
qed

lemma splitext_concat: "splitext p = (path, ext) \<Longrightarrow> path @ ext = p"
  using skip_dots_concat[of p _ _ "(path, ext)"]
  by (auto simp: splitext_def Let_def split: if_splits option.splits)

lemma endswith_append: "endswith (path @ suffix) [suffix]"
  by (simp add: endswith_def)

lemma ecsv_not_yaml:
  "endswith str [''.ecsv'', ''.ECSV''] \<Longrightarrow> \<not> endswith str [''.yaml'', ''.YAML'']"
  by (auto simp: endswith_def)

subsection \<open>\<^verbatim>\<open>updateMetadata\<close> with a detector\<close>

lemma detector_one:
  assumes "length (filter (\<lambda>x. x = CHR ''_'') n) = 1"
  shows "\<exists>a b. n = a @ CHR ''_'' # b \<and> CHR ''_'' \<notin> set a \<and> CHR ''_'' \<notin> set b \<and>
     updateMetadata_detector (PDetector n ser i) c =
       Inr (c\<lparr>u_detectorName := PStr n, u_detectorSerial := PStr ser, u_detectorId := PInt i,
              u_raftName := PStr a, u_slotName := PStr b\<rparr>)"
proof -
  have "filter (\<lambda>x. x = CHR ''_'') n \<noteq> []" using assms by auto
  then have mem: "CHR ''_'' \<in> set n" by (auto simp: filter_empty_conv)
  obtain a b where ab: "n = a @ CHR ''_'' # b" "CHR ''_'' \<notin> set a" "CHR ''_'' \<notin> set b"
     "unpack_raft_slot n (c\<lparr>u_detectorName := PStr n, u_detectorSerial := PStr ser, u_detectorId := PInt i\<rparr>)
        = Inr (c\<lparr>u_detectorName := PStr n, u_detectorSerial := PStr ser, u_detectorId := PInt i,
              u_raftName := PStr a, u_slotName := PStr b\<rparr>)"
    using unpack_two[OF assms, of "c\<lparr>u_detectorName := PStr n, u_detectorSerial := PStr ser, u_detectorId := PInt i\<rparr>"]
    by auto
  have "updateMetadata_detector (PDetector n ser i) c =
       Inr (c\<lparr>u_detectorName := PStr n, u_detectorSerial := PStr ser, u_detectorId := PInt i,
              u_raftName := PStr a, u_slotName := PStr b\<rparr>)"
    using mem ab(4) by (simp add: updateMetadata_detector_def)
  with ab show ?thesis by blast
qed

lemma detector_many:
  assumes "2 \<le> length (filter (\<lambda>x. x = CHR ''_'') n)"
  shows "updateMetadata_detector (PDetector n ser i) c =
       Inl (ValueError ''too many values to unpack (expected 2)'',
            c\<lparr>u_detectorName := PStr n, u_detectorSerial := PStr ser, u_detectorId := PInt i\<rparr>)"
proof -
  have "filter (\<lambda>x. x = CHR ''_'') n \<noteq> []" using assms by auto
  then have mem: "CHR ''_'' \<in> set n" by (auto simp: filter_empty_conv)
  show ?thesis using mem unpack_many[OF assms] by (simp add: updateMetadata_detector_def)
qed

lemma base_update_one:
  assumes "length (filter (\<lambda>x. x = CHR ''_'') n) = 1"
  shows "\<exists>a b s' c'. n = a @ CHR ''_'' # b \<and> CHR ''_'' \<notin> set a \<and> CHR ''_'' \<notin> set b \<and>
     IsrCalib_updateMetadata PNone (PDetector n ser i) filterName False setDate kwargs (s, c) = Inr (s', c') \<and>
     u_raftName c' = PStr a \<and> u_slotName c' = PStr b \<and> u_detectorName c' = PStr n"
proof -
  obtain a b where ab: "n = a @ CHR ''_'' # b" "CHR ''_'' \<notin> set a" "CHR ''_'' \<notin> set b"
     "updateMetadata_detector (PDetector n ser i) c =
       Inr (c\<lparr>u_detectorName := PStr n, u_detectorSerial := PStr ser, u_detectorId := PInt i,
              u_raftName := PStr a, u_slotName := PStr b\<rparr>)"
    using detector_one[OF assms, of ser i c] by blast
  have "\<exists>s' c'. IsrCalib_updateMetadata PNone (PDetector n ser i) filterName False setDate kwargs (s, c) = Inr (s', c') \<and>
     u_raftName c' = PStr a \<and> u_slotName c' = PStr b \<and> u_detectorName c' = PStr n"
    by (simp add: IsrCalib_updateMetadata_def updateMetadata_camera_def ab(4) Let_def)
  with ab(1-3) show ?thesis by blast
qed

lemma prov_update_one:
  assumes "length (filter (\<lambda>x. x = CHR ''_'') n) = 1"
  shows "\<exists>a b s' c'. n = a @ CHR ''_'' # b \<and> CHR ''_'' \<notin> set a \<and> CHR ''_'' \<notin> set b \<and>
     IsrProvenance_updateMetadata setDate [''detector'' \<mapsto> PDetector n ser i] (s, c) = Inr (s', c') \<and>
     u_raftName c' = PStr a \<and> u_slotName c' = PStr b \<and> u_detectorName c' = PStr n"
proof -
  let ?kw = "[''detector'' \<mapsto> PDetector n ser i, ''calibType'' \<mapsto> calibType c]"
  have k: "kwarg ?kw ''detector'' PNone = PDetector n ser i" "kwarg ?kw ''camera'' PNone = PNone"
    "kwarg ?kw ''filterName'' PNone = PNone" "truthy (kwarg ?kw ''setCalibId'' (PInt 0)) = False"
    by (simp_all add: kwarg_def)
  have sd: "[''detector'' \<mapsto> PDetector n ser i] ''setDate'' = None"
    "[''detector'' \<mapsto> PDetector n ser i] ''self'' = None" by simp_all
  show ?thesis
    unfolding IsrProvenance_updateMetadata_def Let_def prod.case k sd
    using base_update_one[OF assms, of ser i PNone setDate _ s c] by simp
qed

lemma base_update_many:
  assumes "2 \<le> length (filter (\<lambda>x. x = CHR ''_'') n)"
  shows "\<exists>e c'. IsrCalib_updateMetadata camera (PDetector n ser i) filterName setCalibId setDate kwargs (s, c)
           = Inl (e, (s, c')) \<and> u_raftName c' = u_raftName c \<and> u_slotName c' = u_slotName c"
  by (auto simp: IsrCalib_updateMetadata_def updateMetadata_camera_def detector_many[OF assms]
      split: sum.splits)

lemma base_update_many_ValueError:
  assumes "2 \<le> length (filter (\<lambda>x. x = CHR ''_'') n)"
  shows "\<exists>c'. IsrCalib_updateMetadata PNone (PDetector n ser i) filterName setCalibId setDate kwargs (s, c)
           = Inl (ValueError ''too many values to unpack (expected 2)'', (s, c'))
         \<and> u_raftName c' = u_raftName c \<and> u_slotName c' = u_slotName c"
  by (simp add: IsrCalib_updateMetadata_def updateMetadata_camera_def detector_many[OF assms])

lemma prov_update_many:
  assumes "2 \<le> length (filter (\<lambda>x. x = CHR ''_'') n)"
  shows "\<exists>e c'. IsrProvenance_updateMetadata setDate (kwargs(''detector'' \<mapsto> PDetector n ser i)) (s, c)
           = Inl (e, (s, c')) \<and> u_raftName c' = u_raftName c \<and> u_slotName c' = u_slotName c"
proof -
  let ?kw = "kwargs(''detector'' \<mapsto> PDetector n ser i, ''calibType'' \<mapsto> calibType c)"
  have d: "kwarg ?kw ''detector'' PNone = PDetector n ser i" by (simp add: kwarg_def)
  show ?thesis
  proof (cases "(kwargs(''detector'' \<mapsto> PDetector n ser i)) ''setDate'' \<noteq> None
      \<or> (kwargs(''detector'' \<mapsto> PDetector n ser i)) ''self'' \<noteq> None")
    case True
    then show ?thesis by (simp add: IsrProvenance_updateMetadata_def Let_def)
  next
    case False
    then show ?thesis
      using base_update_many[OF assms, of "kwarg ?kw ''camera'' PNone" ser i] d
      by (simp add: IsrProvenance_updateMetadata_def Let_def)
  qed
qed

lemma init_update_many:
  assumes "2 \<le> length (filter (\<lambda>x. x = CHR ''_'') n)"
  shows "\<exists>e st'. init_updateMetadata camera (PDetector n ser i) st = Inl (e, st')"
proof (cases st)
  case (Pair s c)
  show ?thesis
  proof (cases "cls c")
    case IsrCalib
    then show ?thesis
      using base_update_many[OF assms, of camera ser i PNone False False Map.empty s c] Pair
      by (auto simp: init_updateMetadata_def)
  next
    case IsrProvenance
    then show ?thesis
      using prov_update_many[OF assms, of False "[''camera'' \<mapsto> camera]" ser i s c] Pair
      by (auto simp: init_updateMetadata_def)
  qed
qed

lemma new_calib_many:
  assumes "2 \<le> length (filter (\<lambda>x. x = CHR ''_'') n)"
  shows "\<exists>e. new_calib_with hook k ct camera (PDetector n ser i) dn di s = Inl e"
proof -
  obtain r0 s0 where p: "PropertyList s = (r0, s0)" by (cases "PropertyList s")
  let ?st1 = "setMetadata (Some r0)
     (s0, \<lparr>cls = k, u_instrument = PNone, u_raftName = PNone, u_slotName = PNone,
           u_detectorName = dn, u_detectorSerial = PNone, u_detectorId = di, u_filter = PNone,
           u_calibId = PNone, u_metadata = r0, calibType = ct, dimensions = {},
           dataIdList = []\<rparr>)"
  show ?thesis
  proof (cases "hook (PDetector n ser i) ?st1")
    case (Inl x)
    then show ?thesis by (cases x) (simp add: new_calib_with_def p Let_def)
  next
    case (Inr st2)
    obtain e st' where "init_updateMetadata camera (PDetector n ser i) st2 = Inl (e, st')"
      using init_update_many[OF assms] by blast
    then show ?thesis using Inr by (simp add: new_calib_with_def p Let_def)
  qed
qed

subsection \<open>\<^verbatim>\<open>updateMetadata\<close> without descriptors; construction\<close>

lemma write_identity_eq:
  "write_identity c s = s\<lparr>objs := (objs s)(u_metadata c := objs s (u_metadata c) ++ identity_entries c)\<rparr>"
  by (simp add: write_identity_def identity_entries_def setitem_def)

lemma base_plain:
  "\<not> truthy camera \<Longrightarrow> \<not> truthy detector \<Longrightarrow> \<not> truthy filterName \<Longrightarrow>
   IsrCalib_updateMetadata camera detector filterName False setDate kwargs (s, c)
     = Inr (written setDate kwargs s c, c)"
  by (simp add: IsrCalib_updateMetadata_def updateMetadata_camera_def updateMetadata_detector_def
      getMetadata_def written_def update_def write_identity_eq Let_def)

lemma restrict_absent:
  "m ''camera'' = None \<Longrightarrow> m ''detector'' = None \<Longrightarrow> m ''filterName'' = None \<Longrightarrow>
   m ''setCalibId'' = None \<Longrightarrow>
   m |` (- {''camera'', ''detector'', ''filterName'', ''setCalibId''}) = m"
  by (auto simp: restrict_map_def fun_eq_iff)

lemma prov_general:
  assumes "kwargs ''setDate'' = None" "kwargs ''self'' = None"
    "\<not> truthy (kwarg kwargs ''camera'' PNone)"
    "\<not> truthy (kwarg kwargs ''detector'' PNone)" "\<not> truthy (kwarg kwargs ''filterName'' PNone)"
    "\<not> truthy (kwarg kwargs ''setCalibId'' (PInt 0))"
  shows "IsrProvenance_updateMetadata setDate kwargs (s, c)
     = Inr (written setDate ((kwargs(''calibType'' \<mapsto> calibType c))
               |` (- {''camera'', ''detector'', ''filterName'', ''setCalibId''})) s c, c)"
proof -
  let ?kw = "kwargs(''calibType'' \<mapsto> calibType c)"
  have k: "\<not> truthy (kwarg ?kw ''camera'' PNone)" "\<not> truthy (kwarg ?kw ''detector'' PNone)"
     "\<not> truthy (kwarg ?kw ''filterName'' PNone)" "truthy (kwarg ?kw ''setCalibId'' (PInt 0)) = False"
    using assms by (simp_all add: kwarg_def)
  show ?thesis
    unfolding IsrProvenance_updateMetadata_def Let_def prod.case k(4)
    using assms(1,2) base_plain[OF k(1) k(2) k(3)] by simp
qed

lemma prov_plain:
  assumes "kwargs ''setDate'' = None" "kwargs ''self'' = None" "kwargs ''camera'' = None"
    "kwargs ''detector'' = None" "kwargs ''filterName'' = None" "kwargs ''setCalibId'' = None"
  shows "IsrProvenance_updateMetadata setDate kwargs (s, c)
     = Inr (written setDate (kwargs(''calibType'' \<mapsto> calibType c)) s c, c)"
proof -
  let ?kw = "kwargs(''calibType'' \<mapsto> calibType c)"
  have r: "?kw |` (- {''camera'', ''detector'', ''filterName'', ''setCalibId''}) = ?kw"
    using assms by (intro restrict_absent) simp_all
  have k: "kwarg ?kw ''camera'' PNone = PNone" "kwarg ?kw ''detector'' PNone = PNone"
     "kwarg ?kw ''filterName'' PNone = PNone" "kwarg ?kw ''setCalibId'' (PInt 0) = PInt 0"
    using assms by (simp_all add: kwarg_def)
  show ?thesis
    unfolding IsrProvenance_updateMetadata_def Let_def prod.case r k
    using assms(1,2) by (simp add: base_plain)
qed

lemma empty_no_keywords:
  "Map.empty ''setDate'' = None" "Map.empty ''self'' = None" "Map.empty ''camera'' = None"
  "Map.empty ''detector'' = None" "Map.empty ''filterName'' = None" "Map.empty ''setCalibId'' = None"
  by simp_all

lemma setMetadata_Some:
  "setMetadata (Some r) (s, c) =
     (s\<lparr>objs := (objs s)(nxt s := objs s r ++ class_entries (cls c)), nxt := Suc (nxt s)\<rparr>,
      c\<lparr>u_metadata := nxt s\<rparr>)"
  by (simp add: setMetadata_def copy_copy_def setitem_def class_entries_def Let_def)

lemma new_prov:
  assumes "\<not> truthy camera" "\<not> truthy detector"
  shows "new_calib IsrProvenance ct camera detector dn di s =
     Inr (s\<lparr>objs := (objs s)(nxt s := Map.empty,
                Suc (nxt s) := (class_entries IsrProvenance ++ identity_entries (fresh_prov ct dn di (Suc (nxt s))))
                                 ++ [''calibType'' \<mapsto> ct]),
            nxt := Suc (Suc (nxt s))\<rparr>,
          fresh_prov ct dn di (Suc (nxt s)))"
proof -
  let ?kw = "[''camera'' \<mapsto> camera, ''detector'' \<mapsto> detector]"
  have k: "?kw ''setDate'' = None" "?kw ''self'' = None" "\<not> truthy (kwarg ?kw ''camera'' PNone)"
    "\<not> truthy (kwarg ?kw ''detector'' PNone)" "\<not> truthy (kwarg ?kw ''filterName'' PNone)"
    "\<not> truthy (kwarg ?kw ''setCalibId'' (PInt 0))"
    using assms by (simp_all add: kwarg_def)
  have r: "(?kw(''calibType'' \<mapsto> ct)) |` (- {''camera'', ''detector'', ''filterName'', ''setCalibId''})
            = [''calibType'' \<mapsto> ct]"
    by (auto simp: restrict_map_def fun_eq_iff)
  let ?s0 = "s\<lparr>objs := (objs s)(nxt s := Map.empty), nxt := Suc (nxt s)\<rparr>"
  let ?s1 = "s\<lparr>objs := (objs s)(nxt s := Map.empty, Suc (nxt s) := class_entries IsrProvenance),
                nxt := Suc (Suc (nxt s))\<rparr>"
  let ?c1 = "fresh_prov ct dn di (Suc (nxt s))"
  have 1: "PropertyList s = (nxt s, ?s0)" by (simp add: PropertyList_def)
  have 2: "setMetadata (Some (nxt s)) (?s0, fresh_prov ct dn di (nxt s)) = (?s1, ?c1)"
    by (simp add: setMetadata_Some fresh_prov_def)
  have 3: "init_updateMetadata camera detector (?s1, ?c1) =
      Inr (written False [''calibType'' \<mapsto> ct] ?s1 ?c1, ?c1)"
    using prov_general[OF k, of False ?s1 ?c1] r
    by (simp add: init_updateMetadata_def fresh_prov_def)
  have 4: "written False [''calibType'' \<mapsto> ct] ?s1 ?c1 =
       s\<lparr>objs := (objs s)(nxt s := Map.empty,
                Suc (nxt s) := (class_entries IsrProvenance ++ identity_entries ?c1)
                                 ++ [''calibType'' \<mapsto> ct]),
            nxt := Suc (Suc (nxt s))\<rparr>"
    by (simp add: written_def date_entries_def fresh_prov_def)
  have self: "\<lparr>cls = IsrProvenance, u_instrument = PNone, u_raftName = PNone, u_slotName = PNone,
                   u_detectorName = dn, u_detectorSerial = PNone,
                   u_detectorId = di, u_filter = PNone, u_calibId = PNone,
                   u_metadata = nxt s, calibType = ct, dimensions = {},
                   dataIdList = []\<rparr> = fresh_prov ct dn di (nxt s)"
    by (simp add: fresh_prov_def)
  show ?thesis
    unfolding new_calib_def new_calib_with_def 1 prod.case Let_def self 2
    using assms(2) by (simp only: if_False 3 4 sum.case prod.case)
qed

lemma deref_fresh:
  "mdref_ok md s \<Longrightarrow> (\<And>r. r < nxt s \<Longrightarrow> objs s' r = objs s r) \<Longrightarrow> deref s' md = deref s md"
  by (cases md) auto

subsection \<open>\<^verbatim>\<open>fromDict\<close>, \<^verbatim>\<open>toDict\<close>, \<^verbatim>\<open>toTable\<close> in closed form\<close>

lemma fromDict_result:
  assumes md: "d_metadata d = Some md" "mdref_ok md s" "no_keywords (deref s md)"
    and ct: "d_calibType d = Some ct" and dims: "d_dimensions d = Some dims"
    and ids: "d_dataIdList d = Some ids"
  defines "c2 \<equiv> \<lparr>cls = IsrProvenance,
        u_instrument = get_or_metadata (d_instrument d) (deref s md) ''INSTRUME'',
        u_raftName = PNone, u_slotName = PNone,
        u_detectorName = get_or_metadata (d_detectorName d) (deref s md) ''DET_NAME'',
        u_detectorSerial = get_or_metadata (d_detectorSerial d) (deref s md) ''DET_SER'',
        u_detectorId = PNone, u_filter = PNone, u_calibId = PNone,
        u_metadata = Suc (nxt s), calibType = ct, dimensions = set dims, dataIdList = ids\<rparr>"
  shows "fromDict d s =
     Inr (s\<lparr>objs := (objs s)(nxt s := Map.empty, Suc (nxt s) := fromDict_md (deref s md) c2),
            nxt := Suc (Suc (nxt s))\<rparr>, c2)"
proof -
  let ?M = "deref s md"
  let ?c0 = "fresh_prov (PStr ''unknown'') PNone PNone (Suc (nxt s))"
  let ?ma = "(class_entries IsrProvenance ++ identity_entries ?c0) ++ [''calibType'' \<mapsto> PStr ''unknown'']"
  let ?s0 = "s\<lparr>objs := (objs s)(nxt s := Map.empty, Suc (nxt s) := ?ma), nxt := Suc (Suc (nxt s))\<rparr>"
  have n: "new_calib IsrProvenance (PStr ''unknown'') PNone PNone PNone PNone s = Inr (?s0, ?c0)"
    by (rule new_prov) simp_all
  have dr0: "deref ?s0 md = ?M" using md(2) by (intro deref_fresh) auto
  have kw: "?M ''setDate'' = None" "?M ''self'' = None" "?M ''camera'' = None"
      "?M ''detector'' = None" "?M ''filterName'' = None" "?M ''setCalibId'' = None"
    using md(3) by (simp_all add: no_keywords_def)
  let ?s1 = "written False (?M(''calibType'' \<mapsto> PStr ''unknown'')) ?s0 ?c0"
  have u1: "IsrProvenance_updateMetadata False ?M (?s0, ?c0) = Inr (?s1, ?c0)"
    using prov_plain[OF kw, of False ?s0 ?c0] by (simp add: fresh_prov_def)
  have dr1: "deref ?s1 md = ?M"
    using md(2) by (intro deref_fresh) (auto simp: written_def fresh_prov_def)
  have c2': "?c0\<lparr>u_detectorName := get_or_metadata (d_detectorName d) ?M ''DET_NAME'',
                u_detectorSerial := get_or_metadata (d_detectorSerial d) ?M ''DET_SER'',
                u_instrument := get_or_metadata (d_instrument d) ?M ''INSTRUME'',
                calibType := ct, dimensions := set dims, dataIdList := ids\<rparr> = c2"
    by (simp add: c2_def fresh_prov_def)
  have u2: "IsrProvenance_updateMetadata False Map.empty (?s1, c2) =
      Inr (written False [''calibType'' \<mapsto> calibType c2] ?s1 c2, c2)"
    using prov_plain[OF empty_no_keywords, of False ?s1 c2] by simp
  have fin: "written False [''calibType'' \<mapsto> calibType c2] ?s1 c2 =
      s\<lparr>objs := (objs s)(nxt s := Map.empty, Suc (nxt s) := fromDict_md ?M c2),
            nxt := Suc (Suc (nxt s))\<rparr>"
    by (simp add: written_def date_entries_def fromDict_md_def c2_def fresh_prov_def
        identity_entries_def)
  show ?thesis
    unfolding fromDict_def n sum.case md(1) option.case fst_conv dr0 u1 prod.case ct dims ids dr1 c2' u2 fin
    by simp
qed

lemma toTable_result:
  "toTable order (s, c) =
     Inr ([\<lparr>columns = columns (Table (dataIdList c) order), rows = rows (Table (dataIdList c) order),
            meta = filteredMetadata ((objs s (u_metadata c) ++ identity_entries c)
                     ++ (date_entries True (now s) ++ [''calibType'' \<mapsto> calibType c]))\<rparr>],
          (written True [''calibType'' \<mapsto> calibType c] s c, c))"
  unfolding toTable_def prov_plain[OF empty_no_keywords]
  by (simp add: getMetadata_def written_def)

lemma auto_names:
  "[] \<notin> set names \<Longrightarrow> map2 auto_name [i..<i + length names] names = names"
proof (induction names arbitrary: i)
  case Nil
  then show ?case by simp
next
  case (Cons name names)
  have u: "[i..<i + length (name # names)] = i # [Suc i..<Suc i + length names]"
    by (subst upt_rec) simp
  have n: "name \<noteq> []" "[] \<notin> set names" using Cons.prems by auto
  show ?case unfolding u using Cons.IH[OF n(2), of "Suc i"] n(1) by (simp add: auto_name_def)
qed

lemma array_cell_plain:
  assumes "one_type cells" "v \<in> set cells" "plain_cell v"
  shows "array_cell (str_column cells) v = v"
proof (cases "str_column cells")
  case False
  then show ?thesis by (simp add: array_cell_def)
next
  case True
  then obtain w where w: "w \<in> set cells" "is_str w" by (auto simp: str_column_def list_ex_iff)
  then have "\<not> list_all is_int cells"
    by (auto simp: list_all_iff is_int_def is_str_def split: pyval.splits)
  then have "is_str v" using assms(1,2) by (auto simp: one_type_def list_all_iff)
  then show ?thesis using True assms(3)
    by (auto simp: array_cell_def is_str_def plain_cell_def split: pyval.splits)
qed

lemma column_mem: "row \<in> set rws \<Longrightarrow> map_of row name = Some v \<Longrightarrow> v \<in> set (column rws name)"
  by (force simp: column_def)

lemma Table_row:
  assumes "\<forall>name\<in>set ns. \<exists>v. map_of row name = Some v \<and> cell name v = v"
  shows "concat (map (\<lambda>(col, name). case map_of row name of
                                      None \<Rightarrow> []
                                    | Some v \<Rightarrow> [(col, cell name v)]) (zip ns ns))
         = map (\<lambda>name. (name, the (map_of row name))) ns"
  using assms by (induction ns) auto

lemma Table_plain:
  assumes nm: "[] \<notin> set names" and ne: "names = [] \<Longrightarrow> rws = []"
    and keys: "\<forall>row\<in>set rws. \<forall>name\<in>set names. map_of row name \<noteq> None"
    and pl: "\<forall>row\<in>set rws. \<forall>v\<in>snd ` set row. plain_cell v"
    and ot: "\<forall>name\<in>set names. one_type (column rws name)"
  shows "Table rws names =
           \<lparr>columns = names,
            rows = map (\<lambda>row. map (\<lambda>name. (name, the (map_of row name))) names) rws,
            meta = Map.empty\<rparr>"
proof -
  have an: "map2 auto_name [0..<length names] names = names" using auto_names[OF nm, of 0] by simp
  have cols: "map fst (zip names names) = names" by (simp add: zip_same_conv_map comp_def)
  have row: "concat (map (\<lambda>(col, name). case map_of row name of
                                      None \<Rightarrow> []
                                    | Some v \<Rightarrow> [(col, array_cell (str_column (column rws name)) v)])
                       (zip names names))
         = map (\<lambda>name. (name, the (map_of row name))) names" if r: "row \<in> set rws" for row
  proof (rule Table_row[where cell = "\<lambda>name. array_cell (str_column (column rws name))"], intro ballI)
    fix name assume n: "name \<in> set names"
    then obtain v where v: "map_of row name = Some v" using keys r by auto
    have "v \<in> snd ` set row" using map_of_SomeD[OF v] by force
    then have "plain_cell v" using pl r by blast
    then have "array_cell (str_column (column rws name)) v = v"
      using array_cell_plain[of "column rws name" v] ot n column_mem[OF r v] by blast
    then show "\<exists>v. map_of row name = Some v \<and> array_cell (str_column (column rws name)) v = v"
      using v by blast
  qed
  show ?thesis
  proof (cases "names = []")
    case True
    then show ?thesis using ne by (simp add: Table_def)
  next
    case False
    then show ?thesis unfolding Table_def Let_def an cols using row by (simp cong: map_cong)
  qed
qed

lemma toDict_result:
  "toDict order (s, c) =
     Inr (\<lparr>d_metadata = Some (PL (u_metadata c)),
           d_detectorName = Some (u_detectorName c),
           d_detectorSerial = Some (u_detectorSerial c),
           d_instrument = Some (u_instrument c),
           d_calibType = Some (calibType c),
           d_dimensions = Some order,
           d_dataIdList = Some (dataIdList c)\<rparr>,
          (written True [''calibType'' \<mapsto> calibType c] s c, c))"
  unfolding toDict_def prov_plain[OF empty_no_keywords]
  by (simp add: getMetadata_def)


text \<open>
  Three tables whose rows are not the rows given: a column of an integer and a string,
  a table without columns, and a column with the empty name.
\<close>

lemma str_int_100: "str_int 100 = ''100''"
  by (simp add: str_int_def str_nat.simps digit_char_def)

lemma Table_mixed_column:
  "Table [[(''exposure'', PInt 100)], [(''exposure'', PStr ''x'')]] [''exposure''] =
     \<lparr>columns = [''exposure''],
      rows = [[(''exposure'', PStr ''100'')], [(''exposure'', PStr ''x'')]],
      meta = Map.empty\<rparr>"
  by (simp add: Table_def auto_name_def column_def str_column_def is_int_def is_str_def
      array_cell_def str_int_100 rstrip_nul_def)

lemma Table_no_columns: "Table [[]] [] = \<lparr>columns = [], rows = [], meta = Map.empty\<rparr>"
  by (simp add: Table_def)

lemma Table_empty_name:
  "Table [[([], PInt 1)]] [[]] =
     \<lparr>columns = [''col0''], rows = [[(''col0'', PInt 1)]], meta = Map.empty\<rparr>"
  by (simp add: Table_def auto_name_def column_def str_column_def is_int_def is_str_def
      array_cell_def str_nat.simps digit_char_def)

lemma lower_latin: "lower [CHR 0xC9, CHR ''t'', CHR 0xC9] = [CHR 0xE9, CHR ''t'', CHR 0xE9]"
  by (simp add: lower_def lower_char_def upper_chars_def lower_chars_def)

lemma map_of_named:
  "dim \<in> set names \<Longrightarrow> map_of (map (\<lambda>name. (name, f name)) names) dim = Some (f dim)"
  by (induction names) auto

subsection \<open>Reading a table; equality\<close>

lemma read_schema_lower:
  "list_all (\<lambda>col. lower col = col) cols \<Longrightarrow>
   read_schema cols (sch, ds) = ((\<lambda>k. if k \<in> set cols then Some k else sch k), ds \<union> set cols)"
  by (induction cols arbitrary: sch ds) (auto simp: fun_eq_iff)

lemma read_entry_ok:
  "list_all (\<lambda>dim. schema dim = Some dim \<and> map_of row dim \<noteq> None) dims \<Longrightarrow>
   read_entry schema row dims = Inr (map (\<lambda>dim. (dim, the (map_of row dim))) dims)"
  by (induction dims) auto

lemma read_rows_ok:
  "list_all (\<lambda>row. list_all (\<lambda>dim. schema dim = Some dim \<and> map_of row dim \<noteq> None) dims) rws \<Longrightarrow>
   read_rows schema dims rws = Inr (map (\<lambda>row. map (\<lambda>dim. (dim, the (map_of row dim))) dims) rws)"
  by (induction rws) (auto simp: read_entry_ok)

lemma dict_eq_iff: "dict_eq a b = (map_of a = map_of b)"
proof
  assume h: "dict_eq a b"
  show "map_of a = map_of b"
  proof (rule ext)
    fix k
    show "map_of a k = map_of b k"
    proof (cases "k \<in> fst ` set a \<union> fst ` set b")
      case True
      then show ?thesis using h by (auto simp: dict_eq_def list_all_iff)
    next
      case False
      then have "map_of a k = None" "map_of b k = None" by (auto simp: map_of_eq_None_iff)
      then show ?thesis by simp
    qed
  qed
next
  assume "map_of a = map_of b"
  then show "dict_eq a b" by (simp add: dict_eq_def list_all_iff)
qed

lemma dict_eq_entry:
  assumes "fst ` set row = set dims"
  shows "dict_eq (map (\<lambda>dim. (dim, the (map_of row dim))) dims) row"
proof -
  have "map_of (map (\<lambda>dim. (dim, the (map_of row dim))) dims) k = map_of row k" for k
  proof (cases "k \<in> set dims")
    case True
    then have "map_of row k \<noteq> None" using assms by (simp add: map_of_eq_None_iff)
    then show ?thesis using True by (auto simp: map_of_map_restrict restrict_map_def)
  next
    case False
    then have "map_of row k = None" using assms by (simp add: map_of_eq_None_iff)
    then show ?thesis using False by (simp add: map_of_map_restrict restrict_map_def)
  qed
  then show ?thesis by (simp add: dict_eq_iff fun_eq_iff)
qed

lemma dict_eq_sym: "dict_eq a b = dict_eq b a"
  by (auto simp: dict_eq_iff)

lemma calib_eq_prov:
  assumes "cls a = IsrProvenance" "cls b = IsrProvenance"
  shows "calib_eq s a b =
    (u_instrument a = u_instrument b \<and> u_raftName a = u_raftName b \<and> u_slotName a = u_slotName b \<and>
     u_detectorName a = u_detectorName b \<and> u_detectorSerial a = u_detectorSerial b \<and>
     u_detectorId a = u_detectorId b \<and> u_filter a = u_filter b \<and> u_calibId a = u_calibId b \<and>
     objs s (u_metadata a) = objs s (u_metadata b) \<and> calibType a = calibType b \<and>
     dimensions a = dimensions b \<and> list_all2 dict_eq (dataIdList a) (dataIdList b))"
  using assms
  by (simp add: calib_eq_def isinstance_def getattr_def base_requiredAttributes_def)


subsection \<open>Looking up a key in the metadata\<close>

lemma or_None_id: "unset_or_truthy v \<Longrightarrow> or_None v = v"
  by (auto simp: unset_or_truthy_def or_None_def)

lemma identity_entries_None: "(identity_entries c k = None) = (k \<notin> set identity_keys)"
  by (simp add: identity_entries_def identity_keys_def)

lemma date_entries_None: "(date_entries True dt k = None) = (k \<notin> set date_keys)"
  by (simp add: date_entries_def date_keys_def)

lemma date_entries_not_PNone: "date_entries b dt k \<noteq> Some PNone"
  by (simp add: date_entries_def)

lemma class_entries_None: "(class_entries IsrProvenance k = None) = (k \<notin> set class_keys)"
  by (simp add: class_entries_def class_keys_def)

lemma keys_disjoint:
  "k \<in> set identity_keys \<Longrightarrow> k \<notin> set date_keys"
  "k \<in> set identity_keys \<Longrightarrow> k \<notin> set class_keys"
  "k \<in> set identity_keys \<Longrightarrow> k \<noteq> ''calibType''"
  "k \<in> set date_keys \<Longrightarrow> k \<notin> set class_keys"
  "k \<in> set date_keys \<Longrightarrow> k \<noteq> ''calibType''"
  "k \<in> set class_keys \<Longrightarrow> k \<noteq> ''calibType''"
  by (auto simp: identity_keys_def date_keys_def class_keys_def)

lemma lookup_fromDict_md:
  "fromDict_md M c2 k =
    (if k = ''calibType'' then Some (calibType c2)
     else (case identity_entries c2 k of
             Some v \<Rightarrow> Some v
           | None \<Rightarrow> (case M k of Some v \<Rightarrow> Some v
               | None \<Rightarrow> (case identity_entries (fresh_prov (PStr ''unknown'') PNone PNone 0) k of
                    Some v \<Rightarrow> Some v | None \<Rightarrow> class_entries IsrProvenance k))))"
  by (simp add: fromDict_md_def map_add_def split: option.splits)

lemma lookup_written_md:
  "((m0 ++ identity_entries c) ++ (date_entries b dt ++ [''calibType'' \<mapsto> ct])) k =
    (if k = ''calibType'' then Some ct
     else (case date_entries b dt k of
             Some v \<Rightarrow> Some v
           | None \<Rightarrow> (case identity_entries c k of Some v \<Rightarrow> Some v | None \<Rightarrow> m0 k)))"
  by (simp add: map_add_def split: option.splits)

lemma filtered_Some: "m k = Some v \<Longrightarrow> v \<noteq> PNone \<Longrightarrow> filteredMetadata m k = Some v"
  by (simp add: filteredMetadata_def split: pyval.splits)

lemma filtered_PNone: "m k = Some PNone \<Longrightarrow> filteredMetadata m k = None"
  by (simp add: filteredMetadata_def)

lemma filtered_None: "m k = None \<Longrightarrow> filteredMetadata m k = None"
  by (simp add: filteredMetadata_def)

lemma filtered_get:
  "m k = Some v \<Longrightarrow> (case filteredMetadata m k of None \<Rightarrow> PNone | Some w \<Rightarrow> w) = v"
  by (cases "v = PNone") (simp_all add: filtered_Some filtered_PNone)




lemma keyword_not_reserved:
  "k \<in> {''self'', ''setDate'', ''camera'', ''detector'', ''filterName'', ''setCalibId''} \<Longrightarrow>
   k \<noteq> ''calibType'' \<and> k \<notin> set identity_keys \<and> k \<notin> set date_keys"
  by (auto simp: identity_keys_def date_keys_def)

lemma no_keywords_written:
  assumes "no_keywords m0"
  shows "no_keywords ((m0 ++ identity_entries c) ++ (date_entries True dt ++ [''calibType'' \<mapsto> ct]))"
proof -
  have "((m0 ++ identity_entries c) ++ (date_entries True dt ++ [''calibType'' \<mapsto> ct])) k = None"
    if "k \<in> {''self'', ''setDate'', ''camera'', ''detector'', ''filterName'', ''setCalibId''}" for k
  proof -
    have "m0 k = None" using assms that by (auto simp: no_keywords_def)
    moreover have "identity_entries c k = None" "date_entries True dt k = None" "k \<noteq> ''calibType''"
      using keyword_not_reserved[OF that] identity_entries_None date_entries_None by blast+
    ultimately show ?thesis unfolding lookup_written_md by simp
  qed
  note h = this
  show ?thesis unfolding no_keywords_def by (intro conjI h) simp_all
qed

lemma no_keywords_filtered: "no_keywords m \<Longrightarrow> no_keywords (filteredMetadata m)"
  by (simp add: no_keywords_def filteredMetadata_def)

lemma md_roundtrip:
  fixes m0 :: metadata and c c2 :: calib and dt :: datetime
  assumes i: "unset_or_truthy (u_instrument c)" "unset_or_truthy (u_detectorName c)"
      "unset_or_truthy (u_detectorSerial c)"
    and n: "u_raftName c = PNone" "u_slotName c = PNone" "u_detectorId c = PNone"
      "u_filter c = PNone" "u_calibId c = PNone"
    and ck: "list_all (\<lambda>k. m0 k \<noteq> None) class_keys"
    and nn: "\<And>k. m0 k = Some PNone \<Longrightarrow> k \<in> set reserved_keys"
  defines "m1 \<equiv> (m0 ++ identity_entries c) ++ (date_entries True dt ++ [''calibType'' \<mapsto> calibType c])"
  assumes c2: "u_instrument c2 = (case filteredMetadata m1 ''INSTRUME'' of None \<Rightarrow> PNone | Some v \<Rightarrow> v)"
      "u_detectorName c2 = (case filteredMetadata m1 ''DET_NAME'' of None \<Rightarrow> PNone | Some v \<Rightarrow> v)"
      "u_detectorSerial c2 = (case filteredMetadata m1 ''DET_SER'' of None \<Rightarrow> PNone | Some v \<Rightarrow> v)"
      "u_raftName c2 = PNone" "u_slotName c2 = PNone" "u_detectorId c2 = PNone"
      "u_filter c2 = PNone" "u_calibId c2 = PNone" "calibType c2 = calibType c"
    and ct: "calibType c \<noteq> PNone"
  shows "u_instrument c2 = u_instrument c" "u_detectorName c2 = u_detectorName c"
    "u_detectorSerial c2 = u_detectorSerial c"
    "fromDict_md (filteredMetadata m1) c2 = m1"
proof -
  have m1I: "m1 ''INSTRUME'' = Some (u_instrument c)" "m1 ''DET_NAME'' = Some (u_detectorName c)"
     "m1 ''DET_SER'' = Some (u_detectorSerial c)"
    using i unfolding m1_def lookup_written_md
    by (simp_all add: identity_entries_def date_entries_def or_None_id)
  show f1: "u_instrument c2 = u_instrument c"
    using c2(1) filtered_get[of m1 "''INSTRUME''", OF m1I(1)] by simp
  show f2: "u_detectorName c2 = u_detectorName c"
    using c2(2) filtered_get[of m1 "''DET_NAME''", OF m1I(2)] by simp
  show f3: "u_detectorSerial c2 = u_detectorSerial c"
    using c2(3) filtered_get[of m1 "''DET_SER''", OF m1I(3)] by simp
  have ie: "identity_entries c2 = identity_entries c"
    using f1 f2 f3 c2 n by (simp add: identity_entries_def)
  show "fromDict_md (filteredMetadata m1) c2 = m1"
  proof (rule ext)
    fix k
    consider (ct) "k = ''calibType''" | (idn) "k \<in> set identity_keys" | (date) "k \<in> set date_keys"
      | (cls) "k \<in> set class_keys"
      | (other) "k \<noteq> ''calibType''" "k \<notin> set identity_keys" "k \<notin> set date_keys" "k \<notin> set class_keys"
      by blast
    then show "fromDict_md (filteredMetadata m1) c2 k = m1 k"
    proof cases
      case ct
      then show ?thesis unfolding m1_def lookup_written_md lookup_fromDict_md by (simp add: c2(9))
    next
      case idn
      then obtain v where v: "identity_entries c k = Some v"
        using identity_entries_None[of c k] by auto
      have d: "date_entries True dt k = None" using idn keys_disjoint(1) date_entries_None by blast
      have kc: "k \<noteq> ''calibType''" using idn keys_disjoint(3) by blast
      show ?thesis unfolding m1_def lookup_written_md lookup_fromDict_md ie
        using v d kc by simp
    next
      case date
      then obtain v where v: "date_entries True dt k = Some v" "v \<noteq> PNone"
        using date_entries_None[of dt k] date_entries_not_PNone[of True dt k] by auto
      have kc: "k \<noteq> ''calibType''" using date keys_disjoint(5) by blast
      have ki: "identity_entries c k = None" using date keys_disjoint(1) identity_entries_None by blast
      have m: "m1 k = Some v" unfolding m1_def lookup_written_md using v kc by simp
      show ?thesis unfolding lookup_fromDict_md ie using kc ki m v(2) filtered_Some[of m1 k v] by simp
    next
      case cls
      have kc: "k \<noteq> ''calibType''" using cls keys_disjoint(6) by blast
      have ki: "identity_entries c k = None" using cls keys_disjoint(2) identity_entries_None by blast
      have kd: "date_entries True dt k = None" using cls keys_disjoint(4) date_entries_None by blast
      have kr: "k \<notin> set reserved_keys" using cls kc keys_disjoint(2,4)
        by (auto simp: reserved_keys_def)
      have "m0 k \<noteq> None" using ck cls by (auto simp: list_all_iff)
      moreover have "m0 k \<noteq> Some PNone" using nn[of k] kr by auto
      ultimately obtain v where v: "m0 k = Some v" "v \<noteq> PNone" by auto
      have m: "m1 k = Some v" unfolding m1_def lookup_written_md using v kc ki kd by simp
      show ?thesis unfolding lookup_fromDict_md ie using kc ki m v(2) filtered_Some[of m1 k v] by simp
    next
      case other
      have ki: "identity_entries c k = None" using other identity_entries_None by blast
      have ki0: "identity_entries (fresh_prov (PStr ''unknown'') PNone PNone 0) k = None"
        using other identity_entries_None by blast
      have kd: "date_entries True dt k = None" using other date_entries_None by blast
      have kcl: "class_entries IsrProvenance k = None" using other class_entries_None by blast
      have kr: "k \<notin> set reserved_keys" using other by (auto simp: reserved_keys_def)
      have m: "m1 k = m0 k" unfolding m1_def lookup_written_md using other ki kd by simp
      have nP: "m0 k \<noteq> Some PNone" using nn[of k] kr by auto
      have f: "filteredMetadata m1 k = m0 k"
      proof (cases "m0 k")
        case None
        then show ?thesis using m by (simp add: filtered_None)
      next
        case (Some v)
        then show ?thesis using m nP by (simp add: filtered_Some)
      qed
      show ?thesis unfolding lookup_fromDict_md ie using other(1) ki ki0 kcl m f
        by (simp split: option.splits)
    qed
  qed
qed

subsection \<open>\<^verbatim>\<open>fromDataIds\<close>\<close>

lemma add_keys_eq: "add_keys ks dims = dims \<union> set ks"
  by (induction ks arbitrary: dims) auto

lemma all_keys_append: "all_keys (xs @ ys) = all_keys xs \<union> all_keys ys"
  by (induction xs) auto

lemma all_keys_set: "all_keys xs = (\<Union>d\<in>set xs. fst ` set d)"
  by (induction xs) auto

lemma fromDataIds_dims: "dimensions (fromDataIds_other ids c) = dimensions c \<union> all_keys ids"
  by (induction ids arbitrary: c) (auto simp: add_keys_eq)

lemma fromDataIds_list: "dataIdList (fromDataIds_other ids c) = dataIdList c @ ids"
  by (induction ids arbitrary: c) auto

lemma fromDataIds_frame:
  "cls (fromDataIds_other ids c) = cls c" "u_metadata (fromDataIds_other ids c) = u_metadata c"
  "calibType (fromDataIds_other ids c) = calibType c" "u_instrument (fromDataIds_other ids c) = u_instrument c"
  "u_raftName (fromDataIds_other ids c) = u_raftName c" "u_slotName (fromDataIds_other ids c) = u_slotName c"
  "u_detectorName (fromDataIds_other ids c) = u_detectorName c"
  "u_detectorSerial (fromDataIds_other ids c) = u_detectorSerial c"
  "u_detectorId (fromDataIds_other ids c) = u_detectorId c" "u_filter (fromDataIds_other ids c) = u_filter c"
  "u_calibId (fromDataIds_other ids c) = u_calibId c"
  by (induction ids arbitrary: c; simp)+

lemma fold_fromDataIds_dims:
  "dimensions (fold fromDataIds_other calls c) = dimensions c \<union> all_keys (concat calls)"
  by (induction calls arbitrary: c) (auto simp: fromDataIds_dims all_keys_append)

lemma fold_fromDataIds_list:
  "dataIdList (fold fromDataIds_other calls c) = dataIdList c @ concat calls"
  by (induction calls arbitrary: c) (auto simp: fromDataIds_list)

lemma fromDataIds_own_loops:
  assumes "fromDataIds_own i c = Some c'"
  shows "\<not> i < length (dataIdList c)"
proof (rule fromDataIds_own.raw_induct[where P = "\<lambda>i c c'. \<not> i < length (dataIdList c)", OF _ assms])
  fix loop :: "nat \<Rightarrow> calib \<Rightarrow> calib option" and i self y
  assume IH: "\<And>i self y. loop i self = Some y \<Longrightarrow> \<not> i < length (dataIdList self)"
    and st: "(if i < length (dataIdList self) then
                loop (Suc i)
                  (self\<lparr>dimensions := add_keys (map fst (dataIdList self ! i)) (dimensions self),
                        dataIdList := dataIdList self @ [dataIdList self ! i]\<rparr>)
              else Some self) = Some y"
  show "\<not> i < length (dataIdList self)"
  proof
    assume l: "i < length (dataIdList self)"
    then have "loop (Suc i)
        (self\<lparr>dimensions := add_keys (map fst (dataIdList self ! i)) (dimensions self),
              dataIdList := dataIdList self @ [dataIdList self ! i]\<rparr>) = Some y"
      using st by simp
    from IH[OF this] show False using l by simp
  qed
qed

lemma fromDataIds_Own:
  "fromDataIds Own c = (if dataIdList c = [] then Some c else None)"
proof (cases "dataIdList c = []")
  case True
  then show ?thesis by (simp add: fromDataIds_def fromDataIds_own.simps)
next
  case False
  then have "0 < length (dataIdList c)" by simp
  then have "fromDataIds_own 0 c = None" using fromDataIds_own_loops[of 0 c] by (cases "fromDataIds_own 0 c") auto
  then show ?thesis using False by (simp add: fromDataIds_def)
qed

lemma fromDataIds_supplied:
  "fromDataIds arg c = Some c' \<Longrightarrow> c' = fromDataIds_other (supplied arg) c"
  by (cases arg) (auto simp: fromDataIds_def fromDataIds_Own[unfolded fromDataIds_def, simplified] supplied_def split: if_splits)

lemma fromDataIds_calls_supplied:
  "fromDataIds_calls calls c = Some c' \<Longrightarrow> c' = fold fromDataIds_other (map supplied calls) c"
proof (induction calls arbitrary: c)
  case Nil
  then show ?case by simp
next
  case (Cons a calls)
  then obtain c1 where 1: "fromDataIds a c = Some c1" and 2: "fromDataIds_calls calls c1 = Some c'"
    by (auto split: option.splits)
  show ?case using Cons.IH[OF 2] fromDataIds_supplied[OF 1] by simp
qed

lemma fromDataIds_calls_Other:
  "fromDataIds_calls (map Other calls) c = Some (fold fromDataIds_other calls c)"
  by (induction calls arbitrary: c) (simp_all add: fromDataIds_def)

subsection \<open>\<^verbatim>\<open>search\<close>\<close>

lemma search_raises: "needles \<noteq> [] \<Longrightarrow> \<exists>e. search d needles = Inl e"
proof (cases d)
  case (PyDict haystack md)
  assume "needles \<noteq> []"
  then have "remdups (map (\<lambda>x. case map_of haystack x of None \<Rightarrow> PNone | Some v \<Rightarrow> v) needles) \<noteq> []"
    by simp
  then show ?thesis using PyDict by (simp add: Let_def)
qed

lemma assign_search_first:
  "needles \<noteq> [] \<Longrightarrow> \<exists>e. assign_search d needles f (Inr c) = Inl (e, c)"
  using search_raises[of needles d] by (auto simp: assign_search_def)

lemma assign_search_Inl: "assign_search d needles f (Inl x) = Inl x"
  by (simp add: assign_search_def)

subsection \<open>The concrete inputs\<close>

lemma flat0_eq:
  "flat0 =
    (store0\<lparr>objs := (objs store0)(0 := Map.empty,
                Suc 0 := (class_entries IsrProvenance ++ identity_entries (fresh_prov (PStr ''flat'') PNone PNone (Suc 0)))
                                 ++ [''calibType'' \<mapsto> PStr ''flat'']),
            nxt := Suc (Suc 0)\<rparr>,
     fresh_prov (PStr ''flat'') PNone PNone (Suc 0))"
proof -
  have n: "nxt store0 = 0" by (simp add: store0_def)
  show ?thesis
    unfolding flat0_def using new_prov[of PNone PNone "PStr ''flat''" PNone PNone store0]
    by (simp add: n)
qed

lemma no_keywords_fresh:
  "no_keywords ((class_entries IsrProvenance ++ identity_entries c) ++ [''calibType'' \<mapsto> ct])"
  by (simp add: no_keywords_def class_entries_def identity_entries_def map_add_def)

lemma store0_simps: "nxt store0 = 0" "objs store0 r = Map.empty"
  by (simp_all add: store0_def)

lemma calib_eq_detectorId:
  "calib_eq s a b \<Longrightarrow> u_detectorId a = u_detectorId b"
  by (cases "cls a")
     (auto simp: calib_eq_def getattr_def base_requiredAttributes_def split: if_splits option.splits)

lemma calib_eq_dimensions:
  "calib_eq s a b \<Longrightarrow> cls a = IsrProvenance \<Longrightarrow> dimensions a = dimensions b"
  by (auto simp: calib_eq_def getattr_def base_requiredAttributes_def isinstance_def split: if_splits option.splits)

lemma fresh_md_PNone:
  "((class_entries IsrProvenance ++ identity_entries c) ++ [''calibType'' \<mapsto> ct]) k = Some PNone
    \<Longrightarrow> ct \<noteq> PNone \<Longrightarrow> k \<in> set reserved_keys"
proof -
  assume a: "((class_entries IsrProvenance ++ identity_entries c) ++ [''calibType'' \<mapsto> ct]) k = Some PNone"
    and ct: "ct \<noteq> PNone"
  show ?thesis
  proof (cases "k = ''calibType'' \<or> k \<in> set identity_keys")
    case True
    then show ?thesis by (auto simp: reserved_keys_def)
  next
    case False
    then have "identity_entries c k = None" using identity_entries_None by blast
    then have "class_entries IsrProvenance k = Some PNone" using a False by (simp add: map_add_def)
    then show ?thesis by (simp add: class_entries_def split: if_splits)
  qed
qed

lemma fresh_md_class_keys:
  "list_all (\<lambda>k. ((class_entries IsrProvenance ++ identity_entries c) ++ [''calibType'' \<mapsto> ct]) k \<noteq> None)
     class_keys"
  by (simp add: class_keys_def class_entries_def identity_entries_def map_add_def SCHEMA_def)

lemma flat0_simps:
  "nxt (fst flat0) = Suc (Suc 0)" "snd flat0 = fresh_prov (PStr ''flat'') PNone PNone (Suc 0)"
  "objs (fst flat0) (Suc 0) = (class_entries IsrProvenance ++ identity_entries (snd flat0))
                                 ++ [''calibType'' \<mapsto> PStr ''flat'']"
  "now (fst flat0) = now store0"
  by (simp_all add: flat0_eq)

lemma fresh_prov_simps:
  "cls (fresh_prov ct dn di r) = IsrProvenance" "u_instrument (fresh_prov ct dn di r) = PNone"
  "u_raftName (fresh_prov ct dn di r) = PNone" "u_slotName (fresh_prov ct dn di r) = PNone"
  "u_detectorName (fresh_prov ct dn di r) = dn" "u_detectorSerial (fresh_prov ct dn di r) = PNone"
  "u_detectorId (fresh_prov ct dn di r) = di" "u_filter (fresh_prov ct dn di r) = PNone"
  "u_calibId (fresh_prov ct dn di r) = PNone" "u_metadata (fresh_prov ct dn di r) = r"
  "calibType (fresh_prov ct dn di r) = ct" "dimensions (fresh_prov ct dn di r) = {}"
  "dataIdList (fresh_prov ct dn di r) = []"
  by (simp_all add: fresh_prov_def)

lemma new_flat0:
  "new_calib IsrProvenance (PStr ''flat'') PNone PNone PNone PNone store0 = Inr (fst flat0, snd flat0)"
  using new_prov[of PNone PNone "PStr ''flat''" PNone PNone store0] by (simp add: flat0_def)




lemma splitext_cal:
  "splitext ''cal.yaml'' = (''cal'', ''.yaml'')" "splitext ''cal.ECSV'' = (''cal'', ''.ECSV'')"
  "splitext ''cal.ecsv'' = (''cal'', ''.ecsv'')"
  by (simp_all add: splitext_def rfind_def upt_rec numeral_nat skip_dots.simps)

lemma endswith_cal:
  "endswith (lower ''cal.yaml'') [''.yaml'', ''.YAML'']"
  "\<not> endswith (lower ''cal.ECSV'') [''.yaml'', ''.YAML'']"
  "endswith (lower ''cal.ECSV'') [''.ecsv'', ''.ECSV'']"
  "\<not> endswith (lower ''cal.ecsv'') [''.yaml'', ''.YAML'']"
  "endswith (lower ''cal.ecsv'') [''.ecsv'', ''.ECSV'']"
  "\<not> endswith (lower ''cal.txt'') [''.yaml'', ''.YAML'']"
  "\<not> endswith (lower ''cal.txt'') [''.ecsv'', ''.ECSV'']"
  by (simp_all add: lower_def lower_char_def upper_chars_def lower_chars_def endswith_def)

subsection \<open>What \<^verbatim>\<open>updateMetadata\<close> and the constructor leave alone\<close>

lemma camera_frame:
  "updateMetadata_camera camera c = Inr c' \<Longrightarrow> dimensions c' = dimensions c \<and> dataIdList c' = dataIdList c"
  by (auto simp: updateMetadata_camera_def split: if_splits sum.splits)

lemma detector_frame:
  "updateMetadata_detector detector c = Inr c' \<Longrightarrow> dimensions c' = dimensions c \<and> dataIdList c' = dataIdList c"
  by (auto simp: updateMetadata_detector_def unpack_raft_slot_def split: if_splits sum.splits list.splits)

lemma base_frame:
  assumes "IsrCalib_updateMetadata camera detector filterName setCalibId setDate kwargs (s, c) = Inr (s', c')"
  shows "dimensions c' = dimensions c \<and> dataIdList c' = dataIdList c"
proof -
  obtain c1 where c1: "updateMetadata_camera camera c = Inr c1"
    using assms by (auto simp: IsrCalib_updateMetadata_def split: sum.splits)
  obtain c2 where c2: "updateMetadata_detector detector c1 = Inr c2"
    using assms c1 by (auto simp: IsrCalib_updateMetadata_def split: sum.splits)
  have "c' = (if truthy filterName then c2\<lparr>u_filter := filterName\<rparr> else c2)"
    using assms c1 c2 by (auto simp: IsrCalib_updateMetadata_def Let_def split: if_splits)
  then show ?thesis using camera_frame[OF c1] detector_frame[OF c2] by simp
qed

lemma prov_frame:
  assumes "IsrProvenance_updateMetadata setDate kwargs (s, c) = Inr (s', c')"
  shows "dimensions c' = dimensions c \<and> dataIdList c' = dataIdList c"
  using assms base_frame
  by (fastforce simp: IsrProvenance_updateMetadata_def Let_def split: if_splits)

lemma new_calib_empty:
  assumes "new_calib k ct camera detector dn di s = Inr (s', c)"
  shows "dimensions c = {} \<and> dataIdList c = []"
proof -
  obtain r0 s0 where p: "PropertyList s = (r0, s0)" by (cases "PropertyList s")
  define self where "self = \<lparr>cls = k, u_instrument = PNone, u_raftName = PNone, u_slotName = PNone,
           u_detectorName = dn, u_detectorSerial = PNone, u_detectorId = di, u_filter = PNone,
           u_calibId = PNone, u_metadata = r0, calibType = ct, dimensions = {},
           dataIdList = []\<rparr>"
  obtain s1 c1 where sm: "setMetadata (Some r0) (s0, self) = (s1, c1)"
    by (cases "setMetadata (Some r0) (s0, self)")
  have c1: "dimensions c1 = {}" "dataIdList c1 = []" "cls c1 = k"
    using sm by (auto simp: setMetadata_Some self_def)
  have nt: "\<not> truthy detector"
    using assms by (auto simp: new_calib_def new_calib_with_def p Let_def IsrCalib_fromDetector_def
        self_def[symmetric] sm split: if_splits)
  have iu: "init_updateMetadata camera detector (s1, c1) = Inr (s', c)"
    using assms nt
    by (auto simp: new_calib_def new_calib_with_def p Let_def self_def[symmetric] sm split: sum.splits)
  show ?thesis
  proof (cases k)
    case IsrCalib
    then show ?thesis using iu c1 base_frame by (fastforce simp: init_updateMetadata_def)
  next
    case IsrProvenance
    then show ?thesis using iu c1 prov_frame by (fastforce simp: init_updateMetadata_def)
  qed
qed

subsection \<open>\<^verbatim>\<open>readFits\<close>\<close>

lemma readFits_at_most_two:
  "readFits_tableList fs filename = Inr tableList \<Longrightarrow> length tableList \<le> 2"
  by (auto simp: readFits_tableList_def Let_def split: sum.splits)

section \<open>The claims\<close>

subsection \<open>C1: round trip through a dictionary\<close>

text \<open>
  Claim C1 says that \<^verbatim>\<open>IsrProvenance.fromDict(c.toDict())\<close> is equal to \<open>c\<close> under
  \<^verbatim>\<open>__eq__\<close> for every instance \<open>c\<close>.  \<^verbatim>\<open>fromDict\<close> restores \<^verbatim>\<open>_detectorName\<close>,
  \<^verbatim>\<open>_detectorSerial\<close> and \<^verbatim>\<open>_instrument\<close> only; \<^verbatim>\<open>_detectorId\<close>, \<^verbatim>\<open>_raftName\<close>,
  \<^verbatim>\<open>_slotName\<close>, \<^verbatim>\<open>_filter\<close> and \<^verbatim>\<open>_calibId\<close> stay \<^verbatim>\<open>None\<close>, although \<^verbatim>\<open>__eq__\<close>
  compares them.  For \<^verbatim>\<open>c = IsrProvenance(detectorId=5)\<close> the construction, \<^verbatim>\<open>toDict\<close>
  and \<^verbatim>\<open>fromDict\<close> all return, the result has \<^verbatim>\<open>_detectorId\<close> \<^verbatim>\<open>None\<close>, and it is not
  equal to \<open>c\<close> whichever of the two is on the left of \<^verbatim>\<open>==\<close>.
\<close>

theorem C1_dict_roundtrip_loses_detectorId:
  "case new_calib IsrProvenance (PStr ''unknown'') PNone PNone PNone (PInt 5) store0 of
     Inl e \<Rightarrow> False
   | Inr st \<Rightarrow>
      (case toDict [] st of
         Inl x \<Rightarrow> False
       | Inr (d, (s1, c)) \<Rightarrow>
          (case fromDict d s1 of
             Inl e \<Rightarrow> False
           | Inr (s2, c') \<Rightarrow>
               u_detectorId c = PInt 5 \<and> u_detectorId c' = PNone \<and>
               \<not> calib_eq s2 c' c \<and> \<not> calib_eq s2 c c'))"
proof -
  define C where "C = fresh_prov (PStr ''unknown'') PNone (PInt 5) (Suc 0)"
  define m0 where "m0 = (class_entries IsrProvenance ++ identity_entries C) ++ [''calibType'' \<mapsto> PStr ''unknown'']"
  define S where "S = store0\<lparr>objs := (objs store0)(0 := Map.empty, Suc 0 := m0), nxt := Suc (Suc 0)\<rparr>"
  have n: "new_calib IsrProvenance (PStr ''unknown'') PNone PNone PNone (PInt 5) store0 = Inr (S, C)"
    using new_prov[of PNone PNone "PStr ''unknown''" PNone "PInt 5" store0]
    by (simp add: store0_simps S_def m0_def C_def)
  have C: "u_metadata C = Suc 0" "u_detectorId C = PInt 5" "cls C = IsrProvenance"
    "calibType C = PStr ''unknown''"
    by (simp_all add: C_def fresh_prov_def)
  define S1 where "S1 = written True [''calibType'' \<mapsto> calibType C] S C"
  define D where "D = \<lparr>d_metadata = Some (PL (u_metadata C)),
           d_detectorName = Some (u_detectorName C),
           d_detectorSerial = Some (u_detectorSerial C),
           d_instrument = Some (u_instrument C),
           d_calibType = Some (calibType C),
           d_dimensions = Some [],
           d_dataIdList = Some (dataIdList C)\<rparr>"
  have td: "toDict [] (S, C) = Inr (D, (S1, C))"
    unfolding D_def S1_def by (rule toDict_result)
  have S1: "nxt S1 = Suc (Suc 0)"
    "objs S1 (Suc 0) = (m0 ++ identity_entries C) ++ (date_entries True (now S) ++ [''calibType'' \<mapsto> calibType C])"
    by (simp_all add: S1_def written_def C S_def)
  have nk: "no_keywords (deref S1 (PL (Suc 0)))"
    unfolding deref.simps S1(2) m0_def by (intro no_keywords_written no_keywords_fresh)
  obtain s2 c2 where fd: "fromDict D S1 = Inr (s2, c2)" and c2: "u_detectorId c2 = PNone"
    using fromDict_result[of D "PL (Suc 0)" S1 "calibType C" "[]" "dataIdList C"] nk
    by (simp add: D_def C S1(1))
  have ne: "\<not> calib_eq s2 c2 C" "\<not> calib_eq s2 C c2"
    using C(2) c2 calib_eq_detectorId[of s2 c2 C] calib_eq_detectorId[of s2 C c2] by auto
  show ?thesis
    unfolding n sum.case td prod.case fd using C(2) c2 ne by simp
qed

subsection \<open>C2: round trip through a table\<close>

text \<open>
  Claim C2 says that \<^verbatim>\<open>IsrProvenance.fromTable(c.toTable())\<close> is equal to \<open>c\<close> for every
  instance, for dimension names of any casing.  \<^verbatim>\<open>fromTable\<close> lower-cases the column
  names, so a dimension \<^verbatim>\<open>'Exposure'\<close> comes back as \<^verbatim>\<open>'exposure'\<close>: for the provenance
  \<open>flat0\<close> after \<^verbatim>\<open>fromDataIds([{'Exposure': 100}])\<close> both calls return and the result is
  not equal to the instance.
\<close>

theorem C2_mixed_case_counterexample:
  "case toTable [''Exposure''] (fst flat0, fromDataIds_other [[(''Exposure'', PInt 100)]] (snd flat0)) of
     Inl x \<Rightarrow> False
   | Inr (tableList, (s1, c)) \<Rightarrow>
      (case fromTable tableList s1 of
         Inl e \<Rightarrow> False
       | Inr (s2, c') \<Rightarrow>
           dimensions c = {''Exposure''} \<and> dimensions c' = {''exposure''} \<and>
           \<not> calib_eq s2 c' c \<and> \<not> calib_eq s2 c c')"
proof -
  define c where "c = fromDataIds_other [[(''Exposure'', PInt 100)]] (snd flat0)"
  define s where "s = fst flat0"
  have d: "dimensions c = {''Exposure''}"
    by (simp add: c_def flat0_simps fresh_prov_simps)
  have l: "dataIdList c = [[(''Exposure'', PInt 100)]]"
    by (simp add: c_def flat0_simps fresh_prov_simps)
  have f: "cls c = IsrProvenance" "calibType c = PStr ''flat''" "u_metadata c = Suc 0"
    by (simp_all add: c_def flat0_simps fresh_prov_simps)
  define m1 where "m1 = (objs s (u_metadata c) ++ identity_entries c)
                     ++ (date_entries True (now s) ++ [''calibType'' \<mapsto> calibType c])"
  define tbl where "tbl = \<lparr>columns = [''Exposure''], rows = dataIdList c, meta = filteredMetadata m1\<rparr>"
  define s1 where "s1 = written True [''calibType'' \<mapsto> calibType c] s c"
  have tp: "Table (dataIdList c) [''Exposure''] =
              \<lparr>columns = [''Exposure''], rows = dataIdList c, meta = Map.empty\<rparr>"
    unfolding l
    using Table_plain[of "[''Exposure'']" "[[(''Exposure'', PInt 100)]]"]
    by (simp add: plain_cell_def one_type_def column_def is_int_def)
  have tt: "toTable [''Exposure''] (s, c) = Inr ([tbl], (s1, c))"
    unfolding tbl_def m1_def s1_def toTable_result tp by simp
  have m1ct: "m1 ''calibType'' = Some (PStr ''flat'')"
    unfolding m1_def lookup_written_md by (simp add: f)
  have fct: "meta tbl ''calibType'' = Some (PStr ''flat'')"
    using filtered_Some[of m1 "''calibType''" "PStr ''flat''"] m1ct by (simp add: tbl_def)
  have rs: "read_schema (columns tbl) (Map.empty, {}) = ([''exposure'' \<mapsto> ''Exposure''], {''exposure''})"
    by (simp add: tbl_def lower_def lower_char_def upper_chars_def lower_chars_def)
  have sl: "sorted_list_of_set {''exposure''} = [''exposure'']" by simp
  have rr: "read_rows [''exposure'' \<mapsto> ''Exposure''] [''exposure''] (rows tbl) = Inr [[(''exposure'', PInt 100)]]"
    by (simp add: tbl_def l)
  define dd where "dd = \<lparr>d_metadata = Some (Plain (meta tbl)),
             d_detectorName = Some (case meta tbl ''DET_NAME'' of None \<Rightarrow> PNone | Some v \<Rightarrow> v),
             d_detectorSerial = Some (case meta tbl ''DET_SER'' of None \<Rightarrow> PNone | Some v \<Rightarrow> v),
             d_instrument = Some (case meta tbl ''INSTRUME'' of None \<Rightarrow> PNone | Some v \<Rightarrow> v),
             d_calibType = Some (PStr ''flat''),
             d_dimensions = Some [''exposure''],
             d_dataIdList = Some [[(''exposure'', PInt 100)]]\<rparr>"
  have ft: "fromTable [tbl] s1 = fromDict dd s1"
    unfolding fromTable_def list.case Let_def fct option.case rs prod.case sl rr sum.case dd_def
    by (rule refl)
  have m0: "objs s (u_metadata c) = (class_entries IsrProvenance ++ identity_entries (snd flat0))
                                 ++ [''calibType'' \<mapsto> PStr ''flat'']"
    by (simp add: s_def f flat0_simps(3))
  have nk: "no_keywords (deref s1 (Plain (meta tbl)))"
    unfolding deref.simps tbl_def table.select_convs m1_def m0
    by (intro no_keywords_filtered no_keywords_written no_keywords_fresh)
  obtain s2 c2 where fd: "fromDict dd s1 = Inr (s2, c2)" and c2: "dimensions c2 = {''exposure''}"
    "cls c2 = IsrProvenance"
    using fromDict_result[of dd "Plain (meta tbl)" s1 "PStr ''flat''" "[''exposure'']" "[[(''exposure'', PInt 100)]]"] nk
    by (simp add: dd_def)
  have dne: "dimensions c2 \<noteq> dimensions c" unfolding d c2 by simp
  have ne: "\<not> calib_eq s2 c2 c" "\<not> calib_eq s2 c c2"
    using dne calib_eq_dimensions[of s2 c2 c] calib_eq_dimensions[of s2 c c2] c2(2) f(1) by auto
  show ?thesis
    unfolding c_def[symmetric] s_def[symmetric] tt sum.case prod.case ft fd
    using d c2(1) ne by simp
qed

text \<open>
  Claim C2 as amended: let \<open>c\<close> be an \<^verbatim>\<open>IsrProvenance\<close> whose dimension names are lower
  case and not empty, whose identifiers each have exactly the dimensions as keys, with
  no identifier when there is no dimension and at least one identifier otherwise, whose
  identifiers hold integers of 64 bits and strings without a NUL character at the end,
  of one of the two types under each dimension, whose \<^verbatim>\<open>calibType\<close> is not \<^verbatim>\<open>None\<close>,
  whose \<^verbatim>\<open>_instrument\<close>, \<^verbatim>\<open>_detectorName\<close> and \<^verbatim>\<open>_detectorSerial\<close> are \<^verbatim>\<open>None\<close> or true
  values, whose \<^verbatim>\<open>_raftName\<close>, \<^verbatim>\<open>_slotName\<close>, \<^verbatim>\<open>_detectorId\<close>, \<^verbatim>\<open>_filter\<close> and \<^verbatim>\<open>_calibId\<close>
  are \<^verbatim>\<open>None\<close>, and whose metadata holds the three class entries, holds \<^verbatim>\<open>None\<close> under
  none but the keys that \<^verbatim>\<open>toTable\<close> rewrites, and has no key named like a parameter of
  \<^verbatim>\<open>updateMetadata\<close> (\<^verbatim>\<open>self\<close>, \<^verbatim>\<open>setDate\<close>, \<^verbatim>\<open>camera\<close>, \<^verbatim>\<open>detector\<close>, \<^verbatim>\<open>filterName\<close>,
  \<^verbatim>\<open>setCalibId\<close>).  Then, for every order \<open>order\<close> in which the set of dimensions is
  iterated, \<^verbatim>\<open>toTable\<close> returns one table, \<^verbatim>\<open>fromTable\<close> returns on it, and the result
  is equal to \<open>c\<close> under \<^verbatim>\<open>__eq__\<close> from either side, the creation-time entries
  included.  The conditions on the identifiers are those under which the table has the
  cells, the rows and the column names that it was given.
\<close>

theorem C2_table_roundtrip:
  assumes cls: "cls c = IsrProvenance" and ref: "u_metadata c < nxt s"
    and ord: "set order = dimensions c"
    and low: "\<forall>dim \<in> dimensions c. lower dim = dim"
    and nm: "[] \<notin> dimensions c"
    and hom: "\<forall>d \<in> set (dataIdList c). fst ` set d = dimensions c"
    and ne: "(dataIdList c = []) = (dimensions c = {})"
    and pl: "\<forall>d \<in> set (dataIdList c). \<forall>v \<in> snd ` set d. plain_cell v"
    and ot: "\<forall>dim \<in> dimensions c. one_type (column (dataIdList c) dim)"
    and ct: "calibType c \<noteq> PNone"
    and i: "unset_or_truthy (u_instrument c)" "unset_or_truthy (u_detectorName c)"
      "unset_or_truthy (u_detectorSerial c)"
    and n: "u_raftName c = PNone" "u_slotName c = PNone" "u_detectorId c = PNone"
      "u_filter c = PNone" "u_calibId c = PNone"
    and kw: "no_keywords (objs s (u_metadata c))"
    and ck: "list_all (\<lambda>k. objs s (u_metadata c) k \<noteq> None) class_keys"
    and nn: "\<forall>k. objs s (u_metadata c) k = Some PNone \<longrightarrow> k \<in> set reserved_keys"
  shows "\<exists>tbl s1 s2 c2. toTable order (s, c) = Inr ([tbl], (s1, c)) \<and>
           fromTable [tbl] s1 = Inr (s2, c2) \<and> calib_eq s2 c2 c \<and> calib_eq s2 c c2"
proof -
  let ?m0 = "objs s (u_metadata c)"
  let ?m1 = "(?m0 ++ identity_entries c) ++ (date_entries True (now s) ++ [''calibType'' \<mapsto> calibType c])"
  let ?fm = "filteredMetadata ?m1"
  let ?rows = "map (\<lambda>row. map (\<lambda>name. (name, the (map_of row name))) order) (dataIdList c)"
  let ?tbl = "\<lparr>columns = order, rows = ?rows, meta = ?fm\<rparr>"
  let ?s1 = "written True [''calibType'' \<mapsto> calibType c] s c"
  let ?sd = "sorted_list_of_set (set order)"
  let ?ids = "map (\<lambda>row. map (\<lambda>dim. (dim, the (map_of row dim))) ?sd) (dataIdList c)"
  let ?schema = "\<lambda>k. if k \<in> set order then Some k else None"
  have keys: "\<forall>row\<in>set (dataIdList c). \<forall>name\<in>set order. map_of row name \<noteq> None"
    using hom ord by (auto simp: map_of_eq_None_iff)
  have tp: "Table (dataIdList c) order = \<lparr>columns = order, rows = ?rows, meta = Map.empty\<rparr>"
  proof (rule Table_plain)
    show "[] \<notin> set order" using nm ord by simp
    show "dataIdList c = []" if "order = []" using that ne ord by simp
    show "\<forall>row\<in>set (dataIdList c). \<forall>name\<in>set order. map_of row name \<noteq> None" by (rule keys)
    show "\<forall>row\<in>set (dataIdList c). \<forall>v\<in>snd ` set row. plain_cell v" by (rule pl)
    show "\<forall>name\<in>set order. one_type (column (dataIdList c) name)" using ot ord by simp
  qed
  have tt: "toTable order (s, c) = Inr ([?tbl], (?s1, c))" unfolding toTable_result tp by simp
  have s1: "nxt ?s1 = nxt s" "objs ?s1 (u_metadata c) = ?m1" "now ?s1 = now s"
    by (simp_all add: written_def)
  have m1ct: "?m1 ''calibType'' = Some (calibType c)" unfolding lookup_written_md by simp
  have fct: "?fm ''calibType'' = Some (calibType c)" using filtered_Some[of ?m1 "''calibType''", OF m1ct ct] .
  have lw: "list_all (\<lambda>col. lower col = col) order" using low ord by (auto simp: list_all_iff)
  have rs: "read_schema order (Map.empty, {}) = (?schema, set order)"
    using read_schema_lower[OF lw, of Map.empty "{}"] by simp
  have sd: "set ?sd = set order" by simp
  have fin: "finite (dimensions c)" using ord List.finite_set[of order] by simp
  have cell: "map_of (map (\<lambda>name. (name, the (map_of row name))) order) dim = Some (the (map_of row dim))"
    if "dim \<in> set order" for row :: dataId and dim
    using that by (rule map_of_named)
  have "read_rows ?schema ?sd ?rows
          = Inr (map (\<lambda>row. map (\<lambda>dim. (dim, the (map_of row dim))) ?sd) ?rows)"
  proof (rule read_rows_ok)
    show "list_all (\<lambda>row. list_all (\<lambda>dim. ?schema dim = Some dim \<and> map_of row dim \<noteq> None) ?sd) ?rows"
      using cell by (auto simp: list_all_iff)
  qed
  moreover have "map (\<lambda>row. map (\<lambda>dim. (dim, the (map_of row dim))) ?sd) ?rows = ?ids"
    using cell by (simp add: comp_def cong: map_cong)
  ultimately have rr: "read_rows ?schema ?sd ?rows = Inr ?ids" by simp
  let ?d = "\<lparr>d_metadata = Some (Plain ?fm),
             d_detectorName = Some (case ?fm ''DET_NAME'' of None \<Rightarrow> PNone | Some v \<Rightarrow> v),
             d_detectorSerial = Some (case ?fm ''DET_SER'' of None \<Rightarrow> PNone | Some v \<Rightarrow> v),
             d_instrument = Some (case ?fm ''INSTRUME'' of None \<Rightarrow> PNone | Some v \<Rightarrow> v),
             d_calibType = Some (calibType c),
             d_dimensions = Some ?sd,
             d_dataIdList = Some ?ids\<rparr>"
  have ft: "fromTable [?tbl] ?s1 = fromDict ?d ?s1"
    unfolding fromTable_def list.case Let_def table.select_convs fct option.case rs prod.case rr sum.case
    by (rule refl)
  let ?c2 = "\<lparr>cls = IsrProvenance,
        u_instrument = (case ?fm ''INSTRUME'' of None \<Rightarrow> PNone | Some v \<Rightarrow> v),
        u_raftName = PNone, u_slotName = PNone,
        u_detectorName = (case ?fm ''DET_NAME'' of None \<Rightarrow> PNone | Some v \<Rightarrow> v),
        u_detectorSerial = (case ?fm ''DET_SER'' of None \<Rightarrow> PNone | Some v \<Rightarrow> v),
        u_detectorId = PNone, u_filter = PNone, u_calibId = PNone,
        u_metadata = Suc (nxt s), calibType = calibType c, dimensions = set ?sd, dataIdList = ?ids\<rparr>"
  let ?s2 = "?s1\<lparr>objs := (objs ?s1)(nxt s := Map.empty, Suc (nxt s) := fromDict_md ?fm ?c2),
            nxt := Suc (Suc (nxt s))\<rparr>"
  have nk: "no_keywords (deref ?s1 (Plain ?fm))"
    using no_keywords_filtered[OF no_keywords_written[OF kw]] by simp
  have fd: "fromDict ?d ?s1 = Inr (?s2, ?c2)"
    using fromDict_result[of ?d "Plain ?fm" ?s1 "calibType c" ?sd ?ids] nk
    by (simp add: get_or_metadata_def s1(1))
  have nn': "\<And>k. ?m0 k = Some PNone \<Longrightarrow> k \<in> set reserved_keys" using nn by blast
  define c2 where "c2 = ?c2"
  define s2 where "s2 = ?s2"
  define m1 where "m1 = ?m1"
  have c2f: "u_instrument c2 = (case ?fm ''INSTRUME'' of None \<Rightarrow> PNone | Some v \<Rightarrow> v)"
      "u_detectorName c2 = (case ?fm ''DET_NAME'' of None \<Rightarrow> PNone | Some v \<Rightarrow> v)"
      "u_detectorSerial c2 = (case ?fm ''DET_SER'' of None \<Rightarrow> PNone | Some v \<Rightarrow> v)"
      "u_raftName c2 = PNone" "u_slotName c2 = PNone" "u_detectorId c2 = PNone"
      "u_filter c2 = PNone" "u_calibId c2 = PNone" "calibType c2 = calibType c"
    by (simp_all add: c2_def)
  note rt = md_roundtrip[OF i n ck nn' c2f ct]
  have c2g: "cls c2 = IsrProvenance" "u_metadata c2 = Suc (nxt s)" "dimensions c2 = dimensions c"
      "dataIdList c2 = ?ids"
    using ord fin by (simp_all add: c2_def)
  have o1: "objs s2 (u_metadata c) = m1" using ref s1(2) by (simp add: s2_def m1_def)
  have "objs s2 (Suc (nxt s)) = fromDict_md ?fm c2" by (simp add: s2_def c2_def)
  then have o2: "objs s2 (u_metadata c2) = m1" using rt(4) c2g(2) by (simp add: m1_def)
  have de: "dict_eq (map (\<lambda>dim. (dim, the (map_of row dim))) ?sd) row"
    if "row \<in> set (dataIdList c)" for row
    using that hom ord fin by (intro dict_eq_entry) simp
  have ids: "list_all2 dict_eq (dataIdList c2) (dataIdList c)"
    unfolding c2g(4) using de by (simp add: list_all2_map1 list_all2_same)
  have ids': "list_all2 dict_eq (dataIdList c) (dataIdList c2)"
    unfolding c2g(4) using de by (simp add: list_all2_map2 list_all2_same dict_eq_sym)
  have e1: "calib_eq s2 c2 c"
    unfolding calib_eq_prov[OF c2g(1) cls] o1 o2
    using rt(1-3) c2f(4-9) c2g(3) n ids by simp
  have e2: "calib_eq s2 c c2"
    unfolding calib_eq_prov[OF cls c2g(1)] o1 o2
    using rt(1-3) c2f(4-9) c2g(3) n ids' by simp
  have fd': "fromTable [?tbl] ?s1 = Inr (s2, c2)" using ft fd by (simp only: s2_def c2_def)
  show ?thesis using tt fd' e1 e2 by blast
qed

text \<open>
  Witness for claim C2 as amended: the scenario of the specification, the provenance
  \<open>flat0\<close> after \<^verbatim>\<open>fromDataIds\<close> of the two identifiers with keys \<^verbatim>\<open>exposure\<close> and
  \<^verbatim>\<open>detector\<close>, satisfies every hypothesis and makes the round trip.
\<close>

theorem C2_table_roundtrip_witness:
  "\<exists>tbl s1 s2 c2.
      toTable [''exposure'', ''detector''] (fst flat0, fromDataIds_other scenario_ids (snd flat0))
        = Inr ([tbl], (s1, fromDataIds_other scenario_ids (snd flat0)))
    \<and> fromTable [tbl] s1 = Inr (s2, c2)
    \<and> calib_eq s2 c2 (fromDataIds_other scenario_ids (snd flat0))
    \<and> calib_eq s2 (fromDataIds_other scenario_ids (snd flat0)) c2"
proof -
  let ?c = "fromDataIds_other scenario_ids (snd flat0)"
  have d: "dimensions ?c = {''exposure'', ''detector''}"
    by (auto simp: fromDataIds_dims flat0_simps fresh_prov_simps scenario_ids_def)
  have l: "dataIdList ?c = scenario_ids"
    by (simp add: fromDataIds_list flat0_simps fresh_prov_simps)
  have m: "objs (fst flat0) (u_metadata ?c) = (class_entries IsrProvenance ++ identity_entries (snd flat0))
                                 ++ [''calibType'' \<mapsto> PStr ''flat'']"
    using flat0_simps(3) by (simp add: fromDataIds_frame flat0_simps(2) fresh_prov_simps)
  show ?thesis
  proof (rule C2_table_roundtrip)
    show "cls ?c = IsrProvenance" by (simp add: fromDataIds_frame flat0_simps fresh_prov_simps)
    show "u_metadata ?c < nxt (fst flat0)" by (simp add: fromDataIds_frame flat0_simps fresh_prov_simps)
    show "set [''exposure'', ''detector''] = dimensions ?c" using d by simp
    show "\<forall>dim\<in>dimensions ?c. lower dim = dim" unfolding d by (simp add: lower_def lower_char_def upper_chars_def lower_chars_def)
    show "[] \<notin> dimensions ?c" unfolding d by simp
    show "\<forall>d\<in>set (dataIdList ?c). fst ` set d = dimensions ?c"
      unfolding d l by (auto simp: scenario_ids_def)
    show "(dataIdList ?c = []) = (dimensions ?c = {})" unfolding d l by (simp add: scenario_ids_def)
    show "\<forall>d\<in>set (dataIdList ?c). \<forall>v\<in>snd ` set d. plain_cell v"
      unfolding l by (simp add: scenario_ids_def plain_cell_def)
    show "\<forall>dim\<in>dimensions ?c. one_type (column (dataIdList ?c) dim)"
      unfolding d l by (simp add: scenario_ids_def one_type_def column_def is_int_def)
    show "calibType ?c \<noteq> PNone" by (simp add: fromDataIds_frame flat0_simps fresh_prov_simps)
    show "unset_or_truthy (u_instrument ?c)" "unset_or_truthy (u_detectorName ?c)"
      "unset_or_truthy (u_detectorSerial ?c)"
      by (simp_all add: fromDataIds_frame flat0_simps fresh_prov_simps unset_or_truthy_def)
    show "u_raftName ?c = PNone" "u_slotName ?c = PNone" "u_detectorId ?c = PNone"
      "u_filter ?c = PNone" "u_calibId ?c = PNone"
      by (simp_all add: fromDataIds_frame flat0_simps fresh_prov_simps)
    show "no_keywords (objs (fst flat0) (u_metadata ?c))" unfolding m by (rule no_keywords_fresh)
    show "list_all (\<lambda>k. objs (fst flat0) (u_metadata ?c) k \<noteq> None) class_keys"
      unfolding m by (rule fresh_md_class_keys)
    show "\<forall>k. objs (fst flat0) (u_metadata ?c) k = Some PNone \<longrightarrow> k \<in> set reserved_keys"
      unfolding m using fresh_md_PNone[of "snd flat0" "PStr ''flat''"] by simp
  qed
qed

subsection \<open>C3: dimensions and identifiers under \<^verbatim>\<open>fromDataIds\<close>\<close>

text \<open>
  Claim C3 says that for every instance, after any calls of \<^verbatim>\<open>fromDataIds\<close>,
  \<^verbatim>\<open>dimensions\<close> is exactly the union of the keys of the entries of \<^verbatim>\<open>dataIdList\<close>.
  \<^verbatim>\<open>fromDataIds\<close> only adds keys, and \<^verbatim>\<open>fromDict\<close> stores the dimensions it is given:
  for the instance built by \<^verbatim>\<open>fromDict\<close> from dimensions \<^verbatim>\<open>['x']\<close> and no identifier,
  after \<^verbatim>\<open>fromDataIds([{'y': 1}])\<close> the dimensions are \<^verbatim>\<open>{'x', 'y'}\<close> and the union of the
  keys is \<^verbatim>\<open>{'y'}\<close>.
\<close>

theorem C3_counterexample:
  "case fromDict \<lparr>d_metadata = Some (Plain Map.empty), d_detectorName = None,
                  d_detectorSerial = None, d_instrument = None,
                  d_calibType = Some (PStr ''flat''), d_dimensions = Some [''x''],
                  d_dataIdList = Some []\<rparr> store0 of
     Inl e \<Rightarrow> False
   | Inr (s, c) \<Rightarrow>
       (case fromDataIds (Other [[(''y'', PInt 1)]]) c of
          None \<Rightarrow> False
        | Some c' \<Rightarrow>
            dimensions c' = {''x'', ''y''} \<and>
            all_keys (dataIdList c') = {''y''} \<and>
            dimensions c' \<noteq> all_keys (dataIdList c'))"
proof -
  define dd where "dd = \<lparr>d_metadata = Some (Plain Map.empty), d_detectorName = None,
                  d_detectorSerial = None, d_instrument = None,
                  d_calibType = Some (PStr ''flat''), d_dimensions = Some [''x''],
                  d_dataIdList = Some ([] :: dataId list)\<rparr>"
  have nk: "no_keywords (deref store0 (Plain Map.empty))" by (simp add: no_keywords_def)
  obtain s2 c2 where fd: "fromDict dd store0 = Inr (s2, c2)" and c2: "dimensions c2 = {''x''}"
    "dataIdList c2 = []"
    using fromDict_result[of dd "Plain Map.empty" store0 "PStr ''flat''" "[''x'']" "[]"] nk
    by (simp add: dd_def)
  have r: "fromDataIds (Other [[(''y'', PInt 1)]]) c2 = Some (fromDataIds_other [[(''y'', PInt 1)]] c2)"
    by (simp add: fromDataIds_def)
  show ?thesis
    unfolding dd_def[symmetric] fd sum.case prod.case r option.case
    using c2 by (auto simp: fromDataIds_dims fromDataIds_list)
qed

text \<open>
  Claim C3 as amended: a sequence of calls of \<^verbatim>\<open>fromDataIds\<close>, each with a list of its
  own (any identifiers, duplicates allowed), returns.  When a sequence of calls
  returns, \<^verbatim>\<open>dataIdList\<close> is its value before followed by the identifiers supplied, in
  order (duplicates kept), and \<^verbatim>\<open>dimensions\<close> is its value before united with the keys of
  the identifiers supplied, so it never shrinks; it is exactly the union of the keys of
  the entries of \<^verbatim>\<open>dataIdList\<close> whenever that held before the calls, in particular for
  an instance that the constructor returned; and two sequences of calls that return
  and supply the same identifiers, in whatever order, end with the same dimensions.
  A call with the instance's own \<^verbatim>\<open>dataIdList\<close> returns, and changes nothing, only when
  that list is empty: otherwise the loop runs over the list that it appends to and
  does not end.
\<close>

theorem C3_fromDataIds:
  "(\<exists>c'. fromDataIds_calls (map Other calls) c = Some c')
   \<and> (fromDataIds_calls args c = Some c' \<longrightarrow>
        dataIdList c' = dataIdList c @ concat (map supplied args)
        \<and> dimensions c' = dimensions c \<union> all_keys (concat (map supplied args))
        \<and> dimensions c \<subseteq> dimensions c'
        \<and> (dimensions c = all_keys (dataIdList c) \<longrightarrow> dimensions c' = all_keys (dataIdList c'))
        \<and> (new_calib IsrProvenance ct camera detector dn di s = Inr (s', c) \<longrightarrow>
             dimensions c' = all_keys (dataIdList c'))
        \<and> (fromDataIds_calls args' c = Some c'' \<longrightarrow>
             set (concat (map supplied args')) = set (concat (map supplied args)) \<longrightarrow>
             dimensions c'' = dimensions c'))
   \<and> fromDataIds Own c = (if dataIdList c = [] then Some c else None)"
proof (intro conjI impI)
  show "\<exists>c'. fromDataIds_calls (map Other calls) c = Some c'"
    using fromDataIds_calls_Other by blast
  show "fromDataIds Own c = (if dataIdList c = [] then Some c else None)"
    by (rule fromDataIds_Own)
next
  assume r: "fromDataIds_calls args c = Some c'"
  note e = fromDataIds_calls_supplied[OF r]
  show l: "dataIdList c' = dataIdList c @ concat (map supplied args)"
    unfolding e by (rule fold_fromDataIds_list)
  show d: "dimensions c' = dimensions c \<union> all_keys (concat (map supplied args))"
    unfolding e by (rule fold_fromDataIds_dims)
  show "dimensions c \<subseteq> dimensions c'" using d by simp
  {
    assume "dimensions c = all_keys (dataIdList c)"
    then show "dimensions c' = all_keys (dataIdList c')" using d l by (simp add: all_keys_append)
  }
  {
    assume "new_calib IsrProvenance ct camera detector dn di s = Inr (s', c)"
    then have "dimensions c = {}" "dataIdList c = []" using new_calib_empty by blast+
    then show "dimensions c' = all_keys (dataIdList c')" using d l by simp
  }
  {
    assume r': "fromDataIds_calls args' c = Some c''"
      and s: "set (concat (map supplied args')) = set (concat (map supplied args))"
    have "dimensions c'' = dimensions c \<union> all_keys (concat (map supplied args'))"
      unfolding fromDataIds_calls_supplied[OF r'] by (rule fold_fromDataIds_dims)
    moreover have "all_keys (concat (map supplied args')) = all_keys (concat (map supplied args))"
      unfolding all_keys_set s by (rule refl)
    ultimately show "dimensions c'' = dimensions c'" using d by simp
  }
qed

text \<open>
  Witness for claim C3 as amended: the scenario of the specification, on the
  provenance \<open>flat0\<close>: a call with its own list, still empty, and the two identifiers
  supplied in two calls and in either order; after them a call with its own list does
  not return.
\<close>

theorem C3_fromDataIds_witness:
  "fromDataIds_calls [Own, Other [scenario_ids ! 0], Other [scenario_ids ! 1]] (snd flat0)
      = Some (fromDataIds_other scenario_ids (snd flat0))
   \<and> dataIdList (fromDataIds_other scenario_ids (snd flat0)) = scenario_ids
   \<and> dimensions (fromDataIds_other scenario_ids (snd flat0)) = {''exposure'', ''detector''}
   \<and> dimensions (fromDataIds_other scenario_ids (snd flat0))
        = all_keys (dataIdList (fromDataIds_other scenario_ids (snd flat0)))
   \<and> (\<exists>c''. fromDataIds_calls [Other [scenario_ids ! 1], Other [scenario_ids ! 0]] (snd flat0) = Some c''
          \<and> dimensions c'' = dimensions (fromDataIds_other scenario_ids (snd flat0)))
   \<and> fromDataIds Own (snd flat0) = Some (snd flat0)
   \<and> fromDataIds Own (fromDataIds_other scenario_ids (snd flat0)) = None"
proof -
  let ?c = "fromDataIds_other scenario_ids (snd flat0)"
  let ?args = "[Own, Other [scenario_ids ! 0], Other [scenario_ids ! 1]]"
  let ?args' = "[Other [scenario_ids ! 1], Other [scenario_ids ! 0]]"
  have e: "dataIdList (snd flat0) = []" "dimensions (snd flat0) = {}"
    by (simp_all add: flat0_simps(2) fresh_prov_simps)
  note own = C3_fromDataIds[THEN conjunct2, THEN conjunct2]
  have o: "fromDataIds Own (snd flat0) = Some (snd flat0)"
    unfolding own[of "snd flat0"] using e by simp
  have "fromDataIds_calls [Other [scenario_ids ! 0], Other [scenario_ids ! 1]] (snd flat0) = Some ?c"
    by (simp add: fromDataIds_def scenario_ids_def)
  then have r: "fromDataIds_calls ?args (snd flat0) = Some ?c"
    unfolding fromDataIds_calls.simps(2)[of Own] o by simp
  have "\<exists>c'. fromDataIds_calls (map Other [[scenario_ids ! 1], [scenario_ids ! 0]]) (snd flat0) = Some c'"
    by (rule conjunct1[OF C3_fromDataIds])
  then obtain c'' where r': "fromDataIds_calls ?args' (snd flat0) = Some c''" by auto
  have s: "set (concat (map supplied ?args')) = set (concat (map supplied ?args))"
    by (auto simp: supplied_def)
  note t = C3_fromDataIds[of "[]" "snd flat0" ?args ?c "PStr ''flat''" PNone PNone PNone PNone
      store0 "fst flat0" ?args' c'']
  note u = t[THEN conjunct2, THEN conjunct1, rule_format, OF r]
  have 1: "dataIdList ?c = scenario_ids"
    using u e by (simp add: supplied_def scenario_ids_def)
  have 2: "dimensions ?c = {''exposure'', ''detector''}"
    using u e by (auto simp: supplied_def scenario_ids_def)
  have 3: "dimensions ?c = all_keys (dataIdList ?c)" using u new_flat0 by blast
  have 4: "dimensions c'' = dimensions ?c" using u r' s by blast
  have "dataIdList ?c \<noteq> []" unfolding 1 by (simp add: scenario_ids_def)
  then have 5: "fromDataIds Own ?c = None"
    unfolding own[of ?c] by simp
  show ?thesis using r 1 2 3 4 r' o 5 by blast
qed

subsection \<open>C4: \<^verbatim>\<open>writeFits\<close> and \<^verbatim>\<open>readFits\<close>\<close>

text \<open>
  Claim C4 says that \<^verbatim>\<open>readFits\<close> recovers all the tables that \<^verbatim>\<open>writeFits\<close> wrote, two
  tables in particular.  \<^verbatim>\<open>readFits\<close> has no loop: it reads the first table, then
  enters its \<^verbatim>\<open>try\<close> block once, where \<^verbatim>\<open>warnings.catch_warnings("error")\<close> raises and
  the exception is passed over.  A file that \<^verbatim>\<open>writeFits\<close> wrote from the tables
  \<open>t1\<close>, \<open>t2\<close> is read back as \<open>t1\<close> alone, and of three tables fewer than three come
  back.
\<close>

theorem C4_readFits_one_table:
  "writeFits (\<lambda>self. Inr ([t1, t2], self)) filename (fs, self)
     = Inr (filename, fs(filename \<mapsto> FitsFile [PrimaryHDU, BinTableHDU t1, BinTableHDU t2]), self)
   \<and> readFits_tableList (fs(filename \<mapsto> FitsFile [PrimaryHDU, BinTableHDU t1, BinTableHDU t2])) filename
     = Inr [t1]
   \<and> readFits (\<lambda>tableList s. Inr tableList)
        filename (fs(filename \<mapsto> FitsFile [PrimaryHDU, BinTableHDU t1, BinTableHDU t2])) s
     = Inr [t1]
   \<and> writeFits (\<lambda>self. Inr ([t1, t2, t3], self)) filename (fs, self)
     = Inr (filename, fs(filename \<mapsto> FitsFile [PrimaryHDU, BinTableHDU t1, BinTableHDU t2, BinTableHDU t3]), self)
   \<and> (\<exists>tableList.
        readFits_tableList (fs(filename \<mapsto> FitsFile [PrimaryHDU, BinTableHDU t1, BinTableHDU t2, BinTableHDU t3])) filename
          = Inr tableList \<and> length tableList < 3)"
  by (simp add: writeFits_def readFits_def readFits_tableList_def Table_read_def Let_def catch_warnings_def)

subsection \<open>C5: \<^verbatim>\<open>calibInfoFromDict\<close> and the aliases of a field\<close>

text \<open>
  Claim C5 says that \<^verbatim>\<open>calibInfoFromDict\<close> raises the error for an ambiguous field
  only when the aliases of the field hold more than one value other than \<^verbatim>\<open>None\<close>, and
  that it looks absent aliases up under \<^verbatim>\<open>'metadata'\<close>.  The set that \<^verbatim>\<open>search\<close> builds
  holds \<^verbatim>\<open>None\<close> for every absent alias and is never empty, and a set of one element is
  subscripted: with \<^verbatim>\<open>{'INSTRUME': 'A'}\<close> alone the \<^verbatim>\<open>ValueError\<close> for too many values
  is raised, with the value under \<^verbatim>\<open>'metadata'\<close> only a \<^verbatim>\<open>TypeError\<close> is raised, and no
  dictionary at all makes the method return.
\<close>

theorem C5_single_value_raises:
  "calibInfoFromDict (PyDict [(''INSTRUME'', PStr ''A'')] None) (s, c)
     = Inl (ValueError ''Too many values found'', (s, c))
   \<and> calibInfoFromDict
        (PyDict [] (Some (PyDict [(''OBSTYPE'', PStr (OBSTYPE (cls c))), (''INSTRUME'', PStr ''A'')] None)))
        (s, c)
     = Inl (TypeError ''set object is not subscriptable'', (s, c))
   \<and> (\<exists>e. calibInfoFromDict d (s, c) = Inl (e, (s, c)))"
proof (intro conjI)
  show "calibInfoFromDict (PyDict [(''INSTRUME'', PStr ''A'')] None) (s, c)
     = Inl (ValueError ''Too many values found'', (s, c))"
    by (simp add: calibInfoFromDict_def check_obstype_def assign_search_def)
  show "calibInfoFromDict
        (PyDict [] (Some (PyDict [(''OBSTYPE'', PStr (OBSTYPE (cls c))), (''INSTRUME'', PStr ''A'')] None)))
        (s, c)
     = Inl (TypeError ''set object is not subscriptable'', (s, c))"
    by (simp add: calibInfoFromDict_def check_obstype_def assign_search_def)
  show "\<exists>e. calibInfoFromDict d (s, c) = Inl (e, (s, c))"
  proof (cases "check_obstype d c")
    case (Some e)
    then show ?thesis by (simp add: calibInfoFromDict_def)
  next
    case None
    obtain e where "assign_search d [''INSTRUME'', ''instrument''] (\<lambda>v c. c\<lparr>u_instrument := v\<rparr>) (Inr c) = Inl (e, c)"
      using assign_search_first[of "[''INSTRUME'', ''instrument'']"] by blast
    then show ?thesis using None by (simp add: calibInfoFromDict_def assign_search_Inl)
  qed
qed

subsection \<open>C6: \<^verbatim>\<open>writeText\<close> with format \<^verbatim>\<open>'auto'\<close>\<close>

text \<open>
  Claim C6: with format \<^verbatim>\<open>'auto'\<close>, a file name whose lower-cased form ends in
  \<^verbatim>\<open>.yaml\<close> has the result of \<^verbatim>\<open>toDict()\<close> written as YAML, one that ends in \<^verbatim>\<open>.ecsv\<close>
  has the single table of \<^verbatim>\<open>toTable()\<close> written as ECSV, and the path returned is the
  path written to: the root that \<^verbatim>\<open>os.path.splitext\<close> gives, followed by the extension
  of the format.  More than one table on the ECSV path raises \<^verbatim>\<open>RuntimeError\<close>, and any
  other file name raises a \<^verbatim>\<open>RuntimeError\<close> whose message holds the file name; the
  files are left as they were in both cases.
\<close>

theorem C6_writeText_auto:
  "(endswith (lower filename) [''.yaml'', ''.YAML''] \<longrightarrow>
      self_toDict self = Inr (outDict, self1) \<longrightarrow>
      (\<exists>used. writeText self_toDict self_toTable filename ''auto'' (fs, self)
                = Inr (used, fs(used \<mapsto> YamlFile outDict), self1)
            \<and> used = fst (splitext filename) @ ''.yaml'' \<and> endswith used [''.yaml'']))
   \<and> (endswith (lower filename) [''.ecsv'', ''.ECSV''] \<longrightarrow>
      self_toTable self = Inr ([tbl], self1) \<longrightarrow>
      (\<exists>used. writeText self_toDict self_toTable filename ''auto'' (fs, self)
                = Inr (used, fs(used \<mapsto> EcsvFile tbl), self1)
            \<and> used = fst (splitext filename) @ ''.ecsv'' \<and> endswith used [''.ecsv'']))
   \<and> (endswith (lower filename) [''.ecsv'', ''.ECSV''] \<longrightarrow>
      self_toTable self = Inr (tableList, self1) \<longrightarrow> length tableList > 1 \<longrightarrow>
      writeText self_toDict self_toTable filename ''auto'' (fs, self)
         = Inl (RuntimeError ''Unable to persist tables in ECSV format.'', fs, self1))
   \<and> (\<not> endswith (lower filename) [''.yaml'', ''.YAML''] \<longrightarrow>
      \<not> endswith (lower filename) [''.ecsv'', ''.ECSV''] \<longrightarrow>
      writeText self_toDict self_toTable filename ''auto'' (fs, self)
         = Inl (RuntimeError
                  (''Attempt to write to a file '' @ filename @ '' that does not end in ''
                     @ quoted ''.yaml'' @ '' or '' @ quoted ''.ecsv''),
                fs, self))"
proof (intro conjI impI)
  assume "endswith (lower filename) [''.yaml'', ''.YAML'']" "self_toDict self = Inr (outDict, self1)"
  then show "\<exists>used. writeText self_toDict self_toTable filename ''auto'' (fs, self)
                = Inr (used, fs(used \<mapsto> YamlFile outDict), self1)
            \<and> used = fst (splitext filename) @ ''.yaml'' \<and> endswith used [''.yaml'']"
    by (simp add: writeText_def endswith_append split: prod.splits)
next
  assume e: "endswith (lower filename) [''.ecsv'', ''.ECSV'']"
    and t: "self_toTable self = Inr ([tbl], self1)"
  have "\<not> endswith (lower filename) [''.yaml'', ''.YAML'']" using e by (rule ecsv_not_yaml)
  then show "\<exists>used. writeText self_toDict self_toTable filename ''auto'' (fs, self)
                = Inr (used, fs(used \<mapsto> EcsvFile tbl), self1)
            \<and> used = fst (splitext filename) @ ''.ecsv'' \<and> endswith used [''.ecsv'']"
    using e t by (simp add: writeText_def endswith_append split: prod.splits)
next
  assume e: "endswith (lower filename) [''.ecsv'', ''.ECSV'']"
    and t: "self_toTable self = Inr (tableList, self1)" "length tableList > 1"
  have "\<not> endswith (lower filename) [''.yaml'', ''.YAML'']" using e by (rule ecsv_not_yaml)
  then show "writeText self_toDict self_toTable filename ''auto'' (fs, self)
         = Inl (RuntimeError ''Unable to persist tables in ECSV format.'', fs, self1)"
    using e t by (simp add: writeText_def)
next
  assume "\<not> endswith (lower filename) [''.yaml'', ''.YAML'']"
    "\<not> endswith (lower filename) [''.ecsv'', ''.ECSV'']"
  then show "writeText self_toDict self_toTable filename ''auto'' (fs, self)
         = Inl (RuntimeError
                  (''Attempt to write to a file '' @ filename @ '' that does not end in ''
                     @ quoted ''.yaml'' @ '' or '' @ quoted ''.ecsv''),
                fs, self)"
    by (simp add: writeText_def)
qed

text \<open>
  Witness for claim C6: the provenance \<open>flat0\<close> written to \<^verbatim>\<open>cal.yaml\<close>, to
  \<^verbatim>\<open>cal.ECSV\<close> and to \<^verbatim>\<open>cal.txt\<close>, and a calibration with two tables written to
  \<^verbatim>\<open>cal.ecsv\<close>.
\<close>

theorem C6_writeText_auto_witness:
  "(\<exists>d st. writeText (toDict []) (toTable []) ''cal.yaml'' ''auto'' (Map.empty, flat0)
              = Inr (''cal.yaml'', [''cal.yaml'' \<mapsto> YamlFile d], st))
   \<and> (\<exists>tbl st. writeText (toDict []) (toTable []) ''cal.ECSV'' ''auto'' (Map.empty, flat0)
              = Inr (''cal.ecsv'', [''cal.ecsv'' \<mapsto> EcsvFile tbl], st))
   \<and> (\<exists>st. writeText (toDict []) two_tables ''cal.ecsv'' ''auto'' (Map.empty, flat0)
              = Inl (RuntimeError ''Unable to persist tables in ECSV format.'', Map.empty, st))
   \<and> writeText (toDict []) (toTable []) ''cal.txt'' ''auto'' (Map.empty, flat0)
              = Inl (RuntimeError
                       (''Attempt to write to a file cal.txt that does not end in ''
                          @ quoted ''.yaml'' @ '' or '' @ quoted ''.ecsv''),
                     Map.empty, flat0)"
proof -
  obtain s c where f: "flat0 = (s, c)" by (cases flat0)
  obtain d st where td: "toDict [] flat0 = Inr (d, st)" unfolding f toDict_result by blast
  obtain tbl st' where tt: "toTable [] flat0 = Inr ([tbl], st')" unfolding f toTable_result by blast
  have t2: "two_tables flat0 = Inr ([tbl, tbl], st')" by (simp add: two_tables_def tt)
  note a = C6_writeText_auto[where filename="''cal.yaml''" and self_toDict="toDict []" and self=flat0
      and outDict=d and ?self1.0=st and self_toTable="toTable []" and fs=Map.empty]
  note b = C6_writeText_auto[where filename="''cal.ECSV''" and self_toDict="toDict []" and self=flat0
      and tbl=tbl and ?self1.0=st' and self_toTable="toTable []" and fs=Map.empty]
  note c = C6_writeText_auto[where filename="''cal.ecsv''" and self_toDict="toDict []" and self=flat0
      and tableList="[tbl, tbl]" and ?self1.0=st' and self_toTable=two_tables and fs=Map.empty]
  note e = C6_writeText_auto[where filename="''cal.txt''" and self_toDict="toDict []" and self=flat0
      and self_toTable="toTable []" and fs=Map.empty]
  have 1: "\<exists>d st. writeText (toDict []) (toTable []) ''cal.yaml'' ''auto'' (Map.empty, flat0)
              = Inr (''cal.yaml'', [''cal.yaml'' \<mapsto> YamlFile d], st)"
    using a td endswith_cal(1) by (auto simp: splitext_cal)
  have 2: "\<exists>tbl st. writeText (toDict []) (toTable []) ''cal.ECSV'' ''auto'' (Map.empty, flat0)
              = Inr (''cal.ecsv'', [''cal.ecsv'' \<mapsto> EcsvFile tbl], st)"
    using b tt endswith_cal(3) by (auto simp: splitext_cal)
  have 3: "\<exists>st. writeText (toDict []) two_tables ''cal.ecsv'' ''auto'' (Map.empty, flat0)
              = Inl (RuntimeError ''Unable to persist tables in ECSV format.'', Map.empty, st)"
    using c t2 endswith_cal(5) by auto
  have 4: "writeText (toDict []) (toTable []) ''cal.txt'' ''auto'' (Map.empty, flat0)
              = Inl (RuntimeError
                       (''Attempt to write to a file cal.txt that does not end in ''
                          @ quoted ''.yaml'' @ '' or '' @ quoted ''.ecsv''),
                     Map.empty, flat0)"
    using e endswith_cal(6,7) by simp
  show ?thesis using 1 2 3 4 by blast
qed

subsection \<open>C7: \<^verbatim>\<open>updateMetadata\<close> with \<^verbatim>\<open>setCalibId\<close>\<close>

text \<open>
  Claim C7 says that \<^verbatim>\<open>updateMetadata(setCalibId=True)\<close> sets \<^verbatim>\<open>_calibId\<close> and returns.
  The fourth entry of the identifier reads \<^verbatim>\<open>self._detector\<close>, an attribute that no
  class of the module has: whatever the other arguments, the call raises and
  \<^verbatim>\<open>_calibId\<close> is left as it was; without descriptors the exception is the
  \<^verbatim>\<open>AttributeError\<close> for \<^verbatim>\<open>_detector\<close>, also through \<^verbatim>\<open>IsrProvenance.updateMetadata\<close>.
\<close>

theorem C7_setCalibId_raises:
  "(\<exists>e st'. IsrCalib_updateMetadata camera detector filterName True setDate kwargs (s, c) = Inl (e, st')
      \<and> u_calibId (snd st') = u_calibId c)
   \<and> IsrCalib_updateMetadata PNone PNone PNone True setDate kwargs (s, c)
        = Inl (AttributeError ''_detector'', (s, c))
   \<and> IsrProvenance_updateMetadata False [''setCalibId'' \<mapsto> PInt 1] (fst flat0, snd flat0)
        = Inl (AttributeError ''_detector'', (fst flat0, snd flat0))"
proof (intro conjI)
  show "\<exists>e st'. IsrCalib_updateMetadata camera detector filterName True setDate kwargs (s, c) = Inl (e, st')
      \<and> u_calibId (snd st') = u_calibId c"
    by (auto simp: IsrCalib_updateMetadata_def updateMetadata_camera_def updateMetadata_detector_def
        unpack_raft_slot_def Let_def split: sum.splits list.splits prod.splits)
  show "IsrCalib_updateMetadata PNone PNone PNone True setDate kwargs (s, c)
        = Inl (AttributeError ''_detector'', (s, c))"
    by (simp add: IsrCalib_updateMetadata_def updateMetadata_camera_def updateMetadata_detector_def)
  show "IsrProvenance_updateMetadata False [''setCalibId'' \<mapsto> PInt 1] (fst flat0, snd flat0)
        = Inl (AttributeError ''_detector'', (fst flat0, snd flat0))"
    by (simp add: IsrProvenance_updateMetadata_def kwarg_def IsrCalib_updateMetadata_def
        updateMetadata_camera_def updateMetadata_detector_def)
qed

text \<open>
  Witness for claim C7: the provenance \<open>flat0\<close>, with a camera and a filter name, with
  nothing, and through \<^verbatim>\<open>IsrProvenance.updateMetadata\<close>.
\<close>

theorem C7_setCalibId_raises_witness:
  "(\<exists>e st'. IsrCalib_updateMetadata (PCamera ''LATISS'') PNone (PStr ''r'') True False Map.empty
               (fst flat0, snd flat0) = Inl (e, st')
      \<and> u_calibId (snd st') = u_calibId (snd flat0))
   \<and> IsrCalib_updateMetadata PNone PNone PNone True False Map.empty (fst flat0, snd flat0)
        = Inl (AttributeError ''_detector'', (fst flat0, snd flat0))
   \<and> IsrProvenance_updateMetadata False [''setCalibId'' \<mapsto> PInt 1] (fst flat0, snd flat0)
        = Inl (AttributeError ''_detector'', (fst flat0, snd flat0))"
  using C7_setCalibId_raises[of "PCamera ''LATISS''" PNone "PStr ''r''" False Map.empty
      "fst flat0" "snd flat0"]
  by simp

subsection \<open>C8: \<^verbatim>\<open>calibInfoFromDict\<close> and a different \<^verbatim>\<open>OBSTYPE\<close>\<close>

text \<open>
  Claim C8 says that a dictionary whose metadata declares another \<^verbatim>\<open>OBSTYPE\<close> makes
  \<^verbatim>\<open>calibInfoFromDict\<close> raise the error that names both values.  The message of that
  \<^verbatim>\<open>RuntimeError\<close> reads \<^verbatim>\<open>calib._OBSTYPE\<close>, and \<^verbatim>\<open>calib\<close> is not a name in scope: what
  is raised is \<^verbatim>\<open>NameError\<close>, with the instance unchanged.
\<close>

theorem C8_obstype_mismatch:
  "map_of metadata ''OBSTYPE'' = Some found \<Longrightarrow> found \<noteq> PStr (OBSTYPE (cls c)) \<Longrightarrow>
   calibInfoFromDict (PyDict items (Some (PyDict metadata mm))) (s, c) = Inl (NameError ''calib'', (s, c))"
  by (auto simp add: calibInfoFromDict_def check_obstype_def)

text \<open>
  Witness for claim C8: the provenance \<open>flat0\<close> and a dictionary whose metadata
  declares \<^verbatim>\<open>OBSTYPE\<close> \<^verbatim>\<open>'bias'\<close>.
\<close>

theorem C8_obstype_mismatch_witness:
  "calibInfoFromDict (PyDict [] (Some (PyDict [(''OBSTYPE'', PStr ''bias'')] None))) (fst flat0, snd flat0)
     = Inl (NameError ''calib'', (fst flat0, snd flat0))"
  using C8_obstype_mismatch[of "[(''OBSTYPE'', PStr ''bias'')]" "PStr ''bias''" "snd flat0" "[]" None "fst flat0"]
  by (simp add: flat0_simps(2) fresh_prov_simps)

subsection \<open>C9: \<^verbatim>\<open>getMetadata\<close> returns the live object\<close>




subsection \<open>C10: the detector name and the raft and slot names\<close>

text \<open>
  Claim C10: \<^verbatim>\<open>updateMetadata\<close> with a detector whose name has exactly one underscore
  returns and sets \<^verbatim>\<open>_raftName\<close> and \<^verbatim>\<open>_slotName\<close> to the parts before and after it;
  with a name of two or more underscores it raises (\<^verbatim>\<open>ValueError\<close>, from the
  destructuring) and leaves both as they were, and so the construction from such a
  detector raises, whatever \<^verbatim>\<open>fromDetector\<close> the class has.
\<close>

theorem C10_detector_name_split:
  "(length (filter (\<lambda>x. x = CHR ''_'') n) = 1 \<longrightarrow>
      (\<exists>a b s' c'. n = a @ CHR ''_'' # b \<and> CHR ''_'' \<notin> set a \<and> CHR ''_'' \<notin> set b \<and>
         IsrCalib_updateMetadata PNone (PDetector n ser i) filterName False setDate kwargs (s, c)
           = Inr (s', c') \<and>
         u_raftName c' = PStr a \<and> u_slotName c' = PStr b \<and> u_detectorName c' = PStr n)
      \<and> (\<exists>a b s' c'. n = a @ CHR ''_'' # b \<and> CHR ''_'' \<notin> set a \<and> CHR ''_'' \<notin> set b \<and>
         IsrProvenance_updateMetadata setDate [''detector'' \<mapsto> PDetector n ser i] (s, c)
           = Inr (s', c') \<and>
         u_raftName c' = PStr a \<and> u_slotName c' = PStr b \<and> u_detectorName c' = PStr n))
   \<and> (2 \<le> length (filter (\<lambda>x. x = CHR ''_'') n) \<longrightarrow>
      (\<exists>c'. IsrCalib_updateMetadata PNone (PDetector n ser i) filterName setCalibId setDate kwargs (s, c)
           = Inl (ValueError ''too many values to unpack (expected 2)'', (s, c'))
         \<and> u_raftName c' = u_raftName c \<and> u_slotName c' = u_slotName c)
      \<and> (\<exists>e c'. IsrProvenance_updateMetadata setDate (kwargs(''detector'' \<mapsto> PDetector n ser i)) (s, c)
           = Inl (e, (s, c')) \<and> u_raftName c' = u_raftName c \<and> u_slotName c' = u_slotName c)
      \<and> (\<exists>e. new_calib_with fromDetector k ct camera (PDetector n ser i) dn di s = Inl e))"
  using base_update_one[of n ser i filterName setDate kwargs s c]
    prov_update_one[of n setDate ser i s c]
    base_update_many_ValueError[of n ser i filterName setCalibId setDate kwargs s c]
    prov_update_many[of n setDate kwargs ser i s c]
    new_calib_many[of n fromDetector k ct camera ser i dn di s]
  by blast

text \<open>
  Witness for claim C10: the detector names \<^verbatim>\<open>R22_S11\<close> and \<^verbatim>\<open>R22_S11_C10\<close> on the
  provenance \<open>flat0\<close>.
\<close>

theorem C10_detector_name_split_witness:
  "(\<exists>a b s' c'. ''R22_S11'' = a @ CHR ''_'' # b \<and> CHR ''_'' \<notin> set a \<and> CHR ''_'' \<notin> set b \<and>
         IsrCalib_updateMetadata PNone (PDetector ''R22_S11'' ''ITL-3800C-145'' 94) PNone False False
             Map.empty (fst flat0, snd flat0) = Inr (s', c') \<and>
         u_raftName c' = PStr a \<and> u_slotName c' = PStr b \<and> u_detectorName c' = PStr ''R22_S11'')
   \<and> (\<exists>c'. IsrCalib_updateMetadata PNone (PDetector ''R22_S11_C10'' ''ITL-3800C-145'' 94) PNone False False
             Map.empty (fst flat0, snd flat0)
           = Inl (ValueError ''too many values to unpack (expected 2)'', (fst flat0, c'))
         \<and> u_raftName c' = PNone \<and> u_slotName c' = PNone)
   \<and> (\<exists>e. new_calib_with IsrCalib_fromDetector IsrProvenance (PStr ''flat'') PNone
              (PDetector ''R22_S11_C10'' ''ITL-3800C-145'' 94) PNone PNone (fst flat0) = Inl e)"
proof -
  have 1: "length (filter (\<lambda>x. x = CHR ''_'') ''R22_S11'') = 1" by simp
  have 2: "2 \<le> length (filter (\<lambda>x. x = CHR ''_'') ''R22_S11_C10'')" by simp
  have f: "u_raftName (snd flat0) = PNone" "u_slotName (snd flat0) = PNone"
    by (simp_all add: flat0_simps(2) fresh_prov_simps)
  show ?thesis
    using C10_detector_name_split[where n="''R22_S11''" and ser="''ITL-3800C-145''" and i=94
        and filterName=PNone and setDate=False and kwargs=Map.empty and s="fst flat0" and c="snd flat0"]
      C10_detector_name_split[where n="''R22_S11_C10''" and ser="''ITL-3800C-145''" and i=94
        and filterName=PNone and setDate=False and setCalibId=False and kwargs=Map.empty
        and s="fst flat0" and c="snd flat0" and fromDetector=IsrCalib_fromDetector
        and k=IsrProvenance and ct="PStr ''flat''" and camera=PNone and dn=PNone and di=PNone]
      1 2 f
    by simp
qed

end
